theory Spec2Isabelle
  imports Complex_Main "HOL-Library.Sublist"
begin

text \<open>
  A shallow embedding of the ClimateSense front end: the floor plan renderer
  (bounding box, canvas size, resolution of diagnostic room references, overlays and
  airflow lines), the average score of the summary card, and the state controller with
  its Generate, Refine and Diagnose handlers. The remote design service is a parameter.
  The definitions come first, then sample data, then the properties.
\<close>

section \<open>JavaScript values used by the application\<close>

subsection \<open>Strings\<close>

text \<open>
  Strings are byte strings. \<open>toLowerCase\<close> folds the ASCII letters, \<open>trim\<close>
  strips the ASCII white space and line terminators at both ends, and
  \<open>str_includes s t\<close> is \<^verbatim>\<open>s.includes(t)\<close>: \<open>t\<close> occurs in \<open>s\<close> as a contiguous run.
  Code points beyond ASCII are outside the model.
\<close>

definition toLowerChar :: "char \<Rightarrow> char" where
  "toLowerChar c =
     (case map_of (zip ''ABCDEFGHIJKLMNOPQRSTUVWXYZ'' ''abcdefghijklmnopqrstuvwxyz'') c of
        Some l \<Rightarrow> l
      | None \<Rightarrow> c)"

definition toLowerCase :: "string \<Rightarrow> string" where
  "toLowerCase s = map toLowerChar s"

definition isWhiteSpace :: "char \<Rightarrow> bool" where
  "isWhiteSpace c =
     (c \<in> set [CHR 0x09, CHR 0x0A, CHR 0x0B, CHR 0x0C, CHR 0x0D, CHR '' ''])"

definition trim :: "string \<Rightarrow> string" where
  "trim s = rev (dropWhile isWhiteSpace (rev (dropWhile isWhiteSpace s)))"

fun str_includes :: "string \<Rightarrow> string \<Rightarrow> bool" where
  "str_includes [] t = (t = [])"
| "str_includes (c # cs) t = (prefix t (c # cs) \<or> str_includes cs t)"

subsection \<open>Numbers\<close>

text \<open>
  A JavaScript number is an IEEE 754 double: a finite value or one of \<^verbatim>\<open>Infinity\<close>,
  \<^verbatim>\<open>-Infinity\<close>, \<^verbatim>\<open>NaN\<close>. A finite double is modelled by its value, a real number, and
  every arithmetic operation computes the exact result and rounds it to the nearest
  double, a tie going to the even significand (\<open>fl\<close>): the result is a multiple of the
  unit in the last place of its binade, with 53 significant bits, gradual underflow
  below \<open>2\<^sup>-\<^sup>1\<^sup>0\<^sup>2\<^sup>2\<close> and overflow to an infinity from \<open>2\<^sup>1\<^sup>0\<^sup>2\<^sup>4\<close> on. The sign of zero is
  not modelled. The numbers of a parsed plan (coordinates, extents, scores) are finite
  doubles and carry the type \<open>real\<close>: a JSON literal beyond the range of the doubles,
  which would parse to an infinity, is outside the model. Computed numbers carry the
  type \<open>num\<close>. The properties below hold for all real field values, the doubles among
  them; the sample data are doubles. A decimal literal of the source that is only handed
  on (an opacity, a stroke width) is kept as written.
\<close>

datatype num = NaN | NegInf | Fin real | PosInf

text \<open>The binary exponent of the binade a value lies in, held at the subnormal range.\<close>

definition exponent :: "real \<Rightarrow> int" where
  "exponent x =
     (if \<bar>x\<bar> < 2 powi (- 1022) then - 1022
      else Max {e \<in> {- 1022 .. 1023}. 2 powi e \<le> \<bar>x\<bar>})"

definition round_even :: "real \<Rightarrow> int" where
  "round_even y =
     (if y - of_int \<lfloor>y\<rfloor> < 1 / 2 then \<lfloor>y\<rfloor>
      else if 1 / 2 < y - of_int \<lfloor>y\<rfloor> then \<lfloor>y\<rfloor> + 1
      else if even \<lfloor>y\<rfloor> then \<lfloor>y\<rfloor> else \<lfloor>y\<rfloor> + 1)"

definition fl :: "real \<Rightarrow> num" where
  "fl x =
     (let ulp = 2 powi (exponent x - 52);
          v = of_int (round_even (x / ulp)) * ulp
      in if 2 ^ 1024 \<le> v then PosInf
         else if v \<le> - (2 ^ 1024) then NegInf
         else Fin v)"

text \<open>The comparison \<^verbatim>\<open>a <= b\<close>; it is false as soon as one side is \<^verbatim>\<open>NaN\<close>.\<close>

fun num_le :: "num \<Rightarrow> num \<Rightarrow> bool" where
  "num_le NaN b = False"
| "num_le a NaN = False"
| "num_le NegInf b = True"
| "num_le a PosInf = True"
| "num_le (Fin a) (Fin b) = (a \<le> b)"
| "num_le a b = False"

fun Math_min :: "num \<Rightarrow> num \<Rightarrow> num" where
  "Math_min NaN b = NaN"
| "Math_min a NaN = NaN"
| "Math_min a b = (if num_le a b then a else b)"

fun Math_max :: "num \<Rightarrow> num \<Rightarrow> num" where
  "Math_max NaN b = NaN"
| "Math_max a NaN = NaN"
| "Math_max a b = (if num_le a b then b else a)"

fun num_neg :: "num \<Rightarrow> num" where
  "num_neg NaN = NaN"
| "num_neg NegInf = PosInf"
| "num_neg (Fin a) = Fin (- a)"
| "num_neg PosInf = NegInf"

fun num_add :: "num \<Rightarrow> num \<Rightarrow> num" where
  "num_add NaN b = NaN"
| "num_add a NaN = NaN"
| "num_add (Fin a) (Fin b) = fl (a + b)"
| "num_add PosInf NegInf = NaN"
| "num_add NegInf PosInf = NaN"
| "num_add (Fin a) b = b"
| "num_add a b = a"

definition num_sub :: "num \<Rightarrow> num \<Rightarrow> num" where
  "num_sub a b = num_add a (num_neg b)"

fun num_mul :: "num \<Rightarrow> num \<Rightarrow> num" where
  "num_mul NaN b = NaN"
| "num_mul a NaN = NaN"
| "num_mul (Fin a) (Fin b) = fl (a * b)"
| "num_mul (Fin a) b = (if a = 0 then NaN else if 0 < a then b else num_neg b)"
| "num_mul a (Fin b) = (if b = 0 then NaN else if 0 < b then a else num_neg a)"
| "num_mul a b = (if a = b then PosInf else NegInf)"

fun num_div :: "num \<Rightarrow> num \<Rightarrow> num" where
  "num_div NaN b = NaN"
| "num_div a NaN = NaN"
| "num_div (Fin a) (Fin b) =
     (if b = 0 then (if a = 0 then NaN else if 0 < a then PosInf else NegInf)
      else fl (a / b))"
| "num_div (Fin a) b = Fin 0"
| "num_div a (Fin b) = (if 0 \<le> b then a else num_neg a)"
| "num_div a b = NaN"

text \<open>
  \<^verbatim>\<open>Math.round\<close>: the nearest integer, a tie going towards \<^verbatim>\<open>+Infinity\<close>; the result is
  computed exactly and is a double whenever the argument is one.
\<close>

fun Math_round :: "num \<Rightarrow> num" where
  "Math_round (Fin v) = Fin (of_int (if v - of_int \<lfloor>v\<rfloor> < 1 / 2 then \<lfloor>v\<rfloor> else \<lfloor>v\<rfloor> + 1))"
| "Math_round a = a"

section \<open>Domain model (types.ts)\<close>

datatype RoomType = Living | Bedroom | Kitchen | Bathroom | Utility | Buffer | Circulation

datatype Side = North | South | East | West

record WindowPlacement =
  win_side :: Side
  win_position :: real
  win_width :: real
  win_shading :: bool

record Room =
  room_id :: string
  room_name :: string
  room_type :: RoomType
  room_x :: real
  room_y :: real
  room_width :: real
  room_height :: real
  windows :: "WindowPlacement list"
  reasoning :: string

record ClimateData =
  climate_location :: string
  climateZone :: string
  averageTemp_min :: real
  averageTemp_max :: real
  solarPotential :: string
  prevailingWinds :: string
  climate_challenges :: "string list"
  design_strategies :: "string list"
  orientation_guidance :: string
  window_guidance :: string
  zoning_guidance :: string

record RejectedAlternative =
  alt_option :: string
  reason_for_rejection :: string

datatype Level = Low | Medium | High

record HeatRiskZone =
  heat_room :: string
  heat_level :: Level

datatype Strength = Weak | Moderate | Strong

record AirflowPath =
  flow_from :: string
  flow_to :: string
  strength :: Strength

record DaylightZone =
  daylight_room :: string
  daylight_quality :: Level

record ClimateDiagnostics =
  heat_risk :: "HeatRiskZone list"
  airflow :: "AirflowPath list"
  daylight :: "DaylightZone list"

record OptimizationEvaluation =
  iterate :: bool
  recommended_adjustments :: "string list"
  expected_benefit :: string

record PerformanceMetrics =
  naturalLightScore :: real
  ventilationEfficiency :: real
  thermalMassUtilization :: real
  solarControlRating :: real

record FloorPlan =
  designTitle :: string
  orientation :: real
  rooms :: "Room list"
  totalArea :: real
  performanceMetrics :: PerformanceMetrics
  architectReasoning :: string
  rejected_alternatives :: "RejectedAlternative list"
  diagnostics :: ClimateDiagnostics

record ExpectedImprovements =
  improvement_heat :: string
  improvement_airflow :: string
  heat_improvement_pct :: real
  airflow_improvement_pct :: real

record RefinementResult =
  revised_floor_plan :: FloorPlan
  changes_made :: "string list"
  expected_improvements :: ExpectedImprovements

record DesignState =
  isGenerating :: bool
  isRefining :: bool
  isEvaluating :: bool
  isDiagnosing :: bool
  climate :: "ClimateData option"
  floorPlan :: "FloorPlan option"
  previousFloorPlan :: "FloorPlan option"
  refinement :: "RefinementResult option"
  optimizationVerdict :: "OptimizationEvaluation option"
  error :: "string option"
  history :: "string list"

section \<open>Floor plan renderer (FloorPlanViewer.tsx)\<close>

definition SCALE :: real where
  "SCALE = 35"

definition PADDING :: real where
  "PADDING = 60"

subsection \<open>Bounding box and canvas size\<close>

record Bounds =
  minX :: num
  minY :: num
  maxX :: num
  maxY :: num

text \<open>The body of the \<^verbatim>\<open>forEach\<close> in \<^verbatim>\<open>dimensions\<close>, and the loop from its start values.\<close>

definition bounds_step :: "Room \<Rightarrow> Bounds \<Rightarrow> Bounds" where
  "bounds_step r b =
     \<lparr>minX = Math_min (minX b) (Fin (room_x r)),
      minY = Math_min (minY b) (Fin (room_y r)),
      maxX = Math_max (maxX b) (num_add (Fin (room_x r)) (Fin (room_width r))),
      maxY = Math_max (maxY b) (num_add (Fin (room_y r)) (Fin (room_height r)))\<rparr>"

definition bounding_box :: "FloorPlan \<Rightarrow> Bounds" where
  "bounding_box plan =
     fold bounds_step (rooms plan) \<lparr>minX = PosInf, minY = PosInf, maxX = NegInf, maxY = NegInf\<rparr>"

record Dimensions =
  width :: num
  height :: num
  offsetX :: num
  offsetY :: num

definition dimensions :: "FloorPlan \<Rightarrow> Dimensions" where
  "dimensions plan =
     (let b = bounding_box plan in
      \<lparr>width = num_add (num_mul (num_sub (maxX b) (minX b)) (Fin SCALE))
                 (num_mul (Fin PADDING) (Fin 2)),
       height = num_add (num_mul (num_sub (maxY b) (minY b)) (Fin SCALE))
                  (num_mul (Fin PADDING) (Fin 2)),
       offsetX = minX b,
       offsetY = minY b\<rparr>)"

subsection \<open>The record from room names to centroids\<close>

text \<open>
  \<^verbatim>\<open>roomCentroids\<close> is a plain object created by \<^verbatim>\<open>{}\<close> and used as a dictionary from
  lowercased room names to \<^verbatim>\<open>{x, y}\<close> pairs. Three rules of the language decide what the
  renderer sees of it:
  \<^item> an assignment to a name that is already an own property replaces the value and
    keeps the property's place; a new name goes to the end;
  \<^item> \<^verbatim>\<open>Object.entries\<close> lists the own properties whose names are array indices (the
    decimal numerals of \<open>0 \<dots> 2\<^sup>3\<^sup>2 - 2\<close>) first, by ascending value, and then the
    others in the order of their creation;
  \<^item> a read that finds no own property continues along the prototype chain, which
    ends in \<^verbatim>\<open>Object.prototype\<close>; an assignment to \<^verbatim>\<open>__proto__\<close> runs the setter
    inherited from there and replaces the prototype instead of adding a property.
\<close>

record Centroid =
  cx :: num
  cy :: num

datatype jsvalue = Undefined | Obj Centroid | Number num | Builtin

record JsObject =
  own :: "(string \<times> Centroid) list"
  proto :: "Centroid option"

fun truthy :: "jsvalue \<Rightarrow> bool" where
  "truthy Undefined = False"
| "truthy (Obj c) = True"
| "truthy (Number n) = (n \<noteq> NaN \<and> n \<noteq> Fin 0)"
| "truthy Builtin = True"

definition Object_prototype_members :: "string list" where
  "Object_prototype_members =
     [''constructor'', ''hasOwnProperty'', ''isPrototypeOf'', ''propertyIsEnumerable'',
      ''toLocaleString'', ''toString'', ''valueOf'', ''__defineGetter__'',
      ''__defineSetter__'', ''__lookupGetter__'', ''__lookupSetter__'']"

definition set_property :: "JsObject \<Rightarrow> string \<Rightarrow> Centroid \<Rightarrow> JsObject" where
  "set_property c k v =
     (if k = ''__proto__'' then c\<lparr>proto := Some v\<rparr>
      else if k \<in> fst ` set (own c)
        then c\<lparr>own := map (\<lambda>(k', v'). if k' = k then (k', v) else (k', v')) (own c)\<rparr>
      else c\<lparr>own := own c @ [(k, v)]\<rparr>)"

definition get_property :: "JsObject \<Rightarrow> string \<Rightarrow> jsvalue" where
  "get_property c k =
     (case map_of (own c) k of
        Some v \<Rightarrow> Obj v
      | None \<Rightarrow>
          (case proto c of
             Some p \<Rightarrow>
               if k = ''__proto__'' then Obj p
               else if k = ''x'' then Number (cx p)
               else if k = ''y'' then Number (cy p)
               else if k \<in> set Object_prototype_members then Builtin
               else Undefined
           | None \<Rightarrow>
               if k = ''__proto__'' \<or> k \<in> set Object_prototype_members then Builtin
               else Undefined))"

definition decimal :: "string \<Rightarrow> nat" where
  "decimal k =
     fold (\<lambda>c n. 10 * n + (case map_of (zip ''0123456789'' [0 ..< 10]) c of
                              Some d \<Rightarrow> d | None \<Rightarrow> 0)) k 0"

definition array_index :: "string \<Rightarrow> nat option" where
  "array_index k =
     (if k \<noteq> [] \<and> list_all (\<lambda>c. c \<in> set ''0123456789'') k
         \<and> (hd k \<noteq> CHR ''0'' \<or> k = ''0'') \<and> decimal k < 2 ^ 32 - 1
      then Some (decimal k) else None)"

definition Object_entries :: "JsObject \<Rightarrow> (string \<times> Centroid) list" where
  "Object_entries c =
     sort_key (\<lambda>(k, v). the (array_index k)) (filter (\<lambda>(k, v). array_index k \<noteq> None) (own c))
     @ filter (\<lambda>(k, v). array_index k = None) (own c)"

subsection \<open>Centroids and the resolution of room references\<close>

definition centroid :: "FloorPlan \<Rightarrow> Room \<Rightarrow> Centroid" where
  "centroid plan r =
     \<lparr>cx = num_add (num_add (num_mul (num_sub (Fin (room_x r)) (offsetX (dimensions plan)))
                                 (Fin SCALE))
                        (Fin PADDING))
               (num_div (num_mul (Fin (room_width r)) (Fin SCALE)) (Fin 2)),
      cy = num_add (num_add (num_mul (num_sub (Fin (room_y r)) (offsetY (dimensions plan)))
                                 (Fin SCALE))
                        (Fin PADDING))
               (num_div (num_mul (Fin (room_height r)) (Fin SCALE)) (Fin 2))\<rparr>"

definition roomCentroids :: "FloorPlan \<Rightarrow> JsObject" where
  "roomCentroids plan =
     fold (\<lambda>r c. set_property c (toLowerCase (room_name r)) (centroid plan r))
       (rooms plan) \<lparr>own = [], proto = None\<rparr>"

definition findCentroid :: "FloorPlan \<Rightarrow> string \<Rightarrow> jsvalue" where
  "findCentroid plan roomRef =
     (let ref = trim (toLowerCase roomRef) in
      if truthy (get_property (roomCentroids plan) ref)
      then get_property (roomCentroids plan) ref
      else (case find (\<lambda>(key, v). str_includes key ref \<or> str_includes ref key)
                   (Object_entries (roomCentroids plan)) of
              Some (key, v) \<Rightarrow> Obj v
            | None \<Rightarrow> Undefined))"

subsection \<open>Heat-risk and daylight overlays\<close>






subsection \<open>Airflow lines\<close>

text \<open>
  The properties of an airflow entry as the renderer reads them by name. The type
  \<^verbatim>\<open>AirflowPath\<close> declares \<^verbatim>\<open>from\<close>, \<^verbatim>\<open>to\<close> and \<^verbatim>\<open>strength\<close>, and every response schema of
  the service asks for exactly these three; a read of any other name is \<^verbatim>\<open>undefined\<close>.
\<close>

fun strength_text :: "Strength \<Rightarrow> string" where
  "strength_text Weak = ''weak''"
| "strength_text Moderate = ''moderate''"
| "strength_text Strong = ''strong''"

definition flow_property :: "AirflowPath \<Rightarrow> string \<Rightarrow> string option" where
  "flow_property flow p =
     (if p = ''from'' then Some (flow_from flow)
      else if p = ''to'' then Some (flow_to flow)
      else if p = ''strength'' then Some (strength_text (strength flow))
      else None)"

text \<open>\<^verbatim>\<open>from.x\<close> and \<^verbatim>\<open>from.y\<close>: only a centroid has these members.\<close>

fun member_x :: "jsvalue \<Rightarrow> num option" where
  "member_x (Obj c) = Some (cx c)"
| "member_x v = None"

fun member_y :: "jsvalue \<Rightarrow> num option" where
  "member_y (Obj c) = Some (cy c)"
| "member_y v = None"

record Line =
  x1 :: "num option"
  y1 :: "num option"
  x2 :: "num option"
  y2 :: "num option"
  strokeWidth :: real
  strokeOpacity :: real

definition airflow_line :: "FloorPlan \<Rightarrow> AirflowPath \<Rightarrow> Line option" where
  "airflow_line plan flow =
     (let from = findCentroid plan (flow_from flow);
          to = findCentroid plan (flow_to flow) in
      if \<not> truthy from \<or> \<not> truthy to then None
      else Some \<lparr>x1 = member_x from, y1 = member_y from,
                 x2 = member_x to, y2 = member_y to,
                 strokeWidth = (if flow_property flow ''efficiency'' = Some ''high'' then 3 else 2),
                 strokeOpacity =
                   (if flow_property flow ''efficiency'' = Some ''high'' then 0.9 else 0.6)\<rparr>)"

definition airflow_lines :: "bool \<Rightarrow> FloorPlan \<Rightarrow> Line option list" where
  "airflow_lines showAirflow plan =
     (if showAirflow then map (airflow_line plan) (airflow (diagnostics plan)) else [])"

section \<open>Summary card (ClimateCard.tsx)\<close>

definition avgScore :: "PerformanceMetrics option \<Rightarrow> num option" where
  "avgScore metrics =
     (case metrics of
        Some m \<Rightarrow>
          Some (Math_round
            (num_mul
               (num_div
                  (num_add
                     (num_add
                        (num_add (Fin (naturalLightScore m)) (Fin (ventilationEfficiency m)))
                        (Fin (thermalMassUtilization m)))
                     (Fin (solarControlRating m)))
                  (Fin 4))
               (Fin 100)))
      | None \<Rightarrow> None)"

section \<open>Application state controller (App.tsx)\<close>

subsection \<open>The remote design service\<close>

text \<open>
  Each operation of geminiService.ts builds a prompt, issues one request and parses the
  reply as JSON. What the remote side answers is not decided by this repository, so
  the service is a parameter of the controller: for each request either the parsed
  reply or the thrown \<^verbatim>\<open>Error\<close>, of which the controller reads the \<^verbatim>\<open>message\<close> only.
\<close>

datatype Priority = Cooling | Daylight | Ventilation

datatype failure = Failure (message: string)

record Service =
  getClimateData :: "string \<Rightarrow> string \<Rightarrow> Priority \<Rightarrow> failure + ClimateData"
  generateDesign :: "ClimateData \<Rightarrow> string \<Rightarrow> string \<Rightarrow> failure + FloorPlan"
  refineDesign :: "FloorPlan \<Rightarrow> ClimateData \<Rightarrow> failure + RefinementResult"
  evaluateOptimization :: "PerformanceMetrics \<Rightarrow> failure + OptimizationEvaluation"
  getDiagnostics :: "FloorPlan \<Rightarrow> failure + ClimateDiagnostics"

datatype Call =
    GetClimateData string string Priority
  | GenerateDesign ClimateData string string
  | RefineDesign FloorPlan ClimateData
  | EvaluateOptimization PerformanceMetrics
  | GetDiagnostics FloorPlan

text \<open>The form fields, each a \<^verbatim>\<open>useState\<close> cell of its own.\<close>

record Form =
  location :: string
  plotDimensions :: string
  priority :: Priority
  requirements :: string

text \<open>
  A handler's run: the requests it issued, in order, and the state after each of its
  \<^verbatim>\<open>setState\<close> calls, in order. A handler that returns at its guard issues nothing and
  leaves the state as it was.
\<close>

record Run =
  calls :: "Call list"
  states :: "DesignState list"

definition final_state :: "DesignState \<Rightarrow> Run \<Rightarrow> DesignState" where
  "final_state s run = last (s # states run)"

definition initial_state :: DesignState where
  "initial_state =
     \<lparr>isGenerating = False, isRefining = False, isEvaluating = False, isDiagnosing = False,
      climate = None, floorPlan = None, previousFloorPlan = None, refinement = None,
      optimizationVerdict = None, error = None, history = []\<rparr>"

subsection \<open>The state updaters, one for each \<^verbatim>\<open>setState\<close> call\<close>

definition generate_begin :: "DesignState \<Rightarrow> DesignState" where
  "generate_begin prev =
     prev\<lparr>isGenerating := True, error := None, refinement := None,
          optimizationVerdict := None, previousFloorPlan := None\<rparr>"

definition generate_done :: "string \<Rightarrow> ClimateData \<Rightarrow> FloorPlan \<Rightarrow> DesignState \<Rightarrow> DesignState" where
  "generate_done loc c plan prev =
     prev\<lparr>climate := Some c, floorPlan := Some plan, isGenerating := False,
          history := history prev @ [''Designed for '' @ loc]\<rparr>"

definition generate_catch :: "failure \<Rightarrow> DesignState \<Rightarrow> DesignState" where
  "generate_catch err prev =
     prev\<lparr>isGenerating := False,
          error := Some (if message err = [] then ''Failed to generate design.''
                         else message err)\<rparr>"

definition refine_begin :: "DesignState \<Rightarrow> DesignState" where
  "refine_begin prev = prev\<lparr>isRefining := True\<rparr>"

definition refine_done :: "FloorPlan \<Rightarrow> RefinementResult \<Rightarrow> DesignState \<Rightarrow> DesignState" where
  "refine_done originalPlan result prev =
     prev\<lparr>isRefining := False, refinement := Some result,
          previousFloorPlan := Some originalPlan,
          floorPlan := Some (revised_floor_plan result),
          history := history prev @ [''Refined design for performance optimization'']\<rparr>"

definition evaluate_begin :: "DesignState \<Rightarrow> DesignState" where
  "evaluate_begin prev = prev\<lparr>isEvaluating := True\<rparr>"

definition evaluate_done :: "OptimizationEvaluation \<Rightarrow> DesignState \<Rightarrow> DesignState" where
  "evaluate_done verdict prev = prev\<lparr>isEvaluating := False, optimizationVerdict := Some verdict\<rparr>"

definition refine_catch :: "DesignState \<Rightarrow> DesignState" where
  "refine_catch prev =
     prev\<lparr>isRefining := False, isEvaluating := False,
          error := Some ''Optimization cycle failed. Please try again.''\<rparr>"

definition diagnose_begin :: "DesignState \<Rightarrow> DesignState" where
  "diagnose_begin prev = prev\<lparr>isDiagnosing := True\<rparr>"

definition diagnose_done :: "ClimateDiagnostics \<Rightarrow> DesignState \<Rightarrow> DesignState" where
  "diagnose_done d prev =
     prev\<lparr>isDiagnosing := False,
          floorPlan := (case floorPlan prev of
                          Some plan \<Rightarrow> Some (plan\<lparr>diagnostics := d\<rparr>)
                        | None \<Rightarrow> None)\<rparr>"

definition diagnose_catch :: "DesignState \<Rightarrow> DesignState" where
  "diagnose_catch prev = prev\<lparr>isDiagnosing := False, error := Some ''Diagnostic audit failed.''\<rparr>"

subsection \<open>The three handlers\<close>

text \<open>
  A handler reads \<^verbatim>\<open>state\<close> and the form as they were when it was called and applies
  its updaters to the state as it is then; with one handler running at a time the
  two are the same state \<open>s\<close>.
\<close>

definition handleGenerate :: "Service \<Rightarrow> Form \<Rightarrow> DesignState \<Rightarrow> Run" where
  "handleGenerate svc form s =
     (if location form = [] then \<lparr>calls = [], states = []\<rparr>
      else
        let s1 = generate_begin s;
            call1 = GetClimateData (location form) (plotDimensions form) (priority form) in
        case getClimateData svc (location form) (plotDimensions form) (priority form) of
          Inl err \<Rightarrow> \<lparr>calls = [call1], states = [s1, generate_catch err s1]\<rparr>
        | Inr c \<Rightarrow>
            let call2 = GenerateDesign c (plotDimensions form) (requirements form) in
            (case generateDesign svc c (plotDimensions form) (requirements form) of
               Inl err \<Rightarrow> \<lparr>calls = [call1, call2], states = [s1, generate_catch err s1]\<rparr>
             | Inr plan \<Rightarrow>
                 \<lparr>calls = [call1, call2],
                  states = [s1, generate_done (location form) c plan s1]\<rparr>))"

definition handleRefine :: "Service \<Rightarrow> DesignState \<Rightarrow> Run" where
  "handleRefine svc s =
     (case (floorPlan s, climate s) of
        (Some originalPlan, Some c) \<Rightarrow>
          let s1 = refine_begin s;
              call1 = RefineDesign originalPlan c in
          (case refineDesign svc originalPlan c of
             Inl err \<Rightarrow> \<lparr>calls = [call1], states = [s1, refine_catch s1]\<rparr>
           | Inr result \<Rightarrow>
               let s2 = refine_done originalPlan result s1;
                   s3 = evaluate_begin s2;
                   call2 = EvaluateOptimization (performanceMetrics (revised_floor_plan result)) in
               (case evaluateOptimization svc (performanceMetrics (revised_floor_plan result)) of
                  Inl err \<Rightarrow> \<lparr>calls = [call1, call2], states = [s1, s2, s3, refine_catch s3]\<rparr>
                | Inr verdict \<Rightarrow>
                    \<lparr>calls = [call1, call2], states = [s1, s2, s3, evaluate_done verdict s3]\<rparr>))
      | _ \<Rightarrow> \<lparr>calls = [], states = []\<rparr>)"

definition handleRunDiagnostics :: "Service \<Rightarrow> DesignState \<Rightarrow> Run" where
  "handleRunDiagnostics svc s =
     (case floorPlan s of
        None \<Rightarrow> \<lparr>calls = [], states = []\<rparr>
      | Some plan \<Rightarrow>
          let s1 = diagnose_begin s in
          (case getDiagnostics svc plan of
             Inl err \<Rightarrow> \<lparr>calls = [GetDiagnostics plan], states = [s1, diagnose_catch s1]\<rparr>
           | Inr d \<Rightarrow> \<lparr>calls = [GetDiagnostics plan], states = [s1, diagnose_done d s1]\<rparr>))"

subsection \<open>Reachable states\<close>

text \<open>
  One step is one \<^verbatim>\<open>setState\<close> call of some handler, applied to whatever the state is at
  that moment; the values an updater closes over are arbitrary. The states reachable
  by steps include those of every interleaving of the handlers.
\<close>

inductive step :: "DesignState \<Rightarrow> DesignState \<Rightarrow> bool" where
  "step s (generate_begin s)"
| "step s (generate_done loc c plan s)"
| "step s (generate_catch err s)"
| "step s (refine_begin s)"
| "step s (refine_done originalPlan result s)"
| "step s (evaluate_begin s)"
| "step s (evaluate_done verdict s)"
| "step s (refine_catch s)"
| "step s (diagnose_begin s)"
| "step s (diagnose_done d s)"
| "step s (diagnose_catch s)"

inductive reachable :: "DesignState \<Rightarrow> bool" where
  "reachable initial_state"
| "reachable s \<Longrightarrow> step s s' \<Longrightarrow> reachable s'"

section \<open>A sample plan\<close>

definition living_room :: Room where
  "living_room =
     \<lparr>room_id = ''r1'', room_name = ''Living Room'', room_type = Living,
      room_x = 0, room_y = 0, room_width = 5, room_height = 4,
      windows = [\<lparr>win_side = South, win_position = 1 / 2, win_width = 2, win_shading = True\<rparr>],
      reasoning = ''faces the winter sun''\<rparr>"

definition kitchen :: Room where
  "kitchen =
     \<lparr>room_id = ''r2'', room_name = ''Kitchen'', room_type = Kitchen,
      room_x = 5, room_y = 0, room_width = 3, room_height = 4,
      windows = [], reasoning = ''''\<rparr>"

definition master_bedroom :: Room where
  "master_bedroom =
     \<lparr>room_id = ''r3'', room_name = ''Master Bedroom'', room_type = Bedroom,
      room_x = 0, room_y = 4, room_width = 4, room_height = 4,
      windows = [], reasoning = ''''\<rparr>"

definition bedroom :: Room where
  "bedroom =
     \<lparr>room_id = ''r4'', room_name = ''Bedroom'', room_type = Bedroom,
      room_x = 4, room_y = 4, room_width = 4, room_height = 4,
      windows = [], reasoning = ''''\<rparr>"

definition sample_diagnostics :: ClimateDiagnostics where
  "sample_diagnostics =
     \<lparr>heat_risk = [\<lparr>heat_room = ''Bedroom'', heat_level = High\<rparr>,
                   \<lparr>heat_room = ''Master Bedroom'', heat_level = Low\<rparr>],
      airflow = [\<lparr>flow_from = ''Living Room'', flow_to = ''Kitchen'', strength = Strong\<rparr>,
                 \<lparr>flow_from = ''Kitchen'', flow_to = ''Garage'', strength = Weak\<rparr>],
      daylight = [\<lparr>daylight_room = ''living'', daylight_quality = High\<rparr>]\<rparr>"

text \<open>The fourth score is the double nearest to 0.8.\<close>

definition sample_metrics :: PerformanceMetrics where
  "sample_metrics =
     \<lparr>naturalLightScore = 1 / 2, ventilationEfficiency = 1 / 2,
      thermalMassUtilization = 1 / 2, solarControlRating = 3602879701896397 / 2 ^ 52\<rparr>"

definition sample_plan :: FloorPlan where
  "sample_plan =
     \<lparr>designTitle = ''Courtyard House'', orientation = 15,
      rooms = [living_room, kitchen, master_bedroom, bedroom],
      totalArea = 64, performanceMetrics = sample_metrics,
      architectReasoning = ''compact plan'', rejected_alternatives = [],
      diagnostics = sample_diagnostics\<rparr>"







text \<open>A plan of one room whose left edge is the double nearest to 0.2.\<close>

definition study :: Room where
  "study =
     \<lparr>room_id = ''s1'', room_name = ''Study'', room_type = Utility,
      room_x = 3602879701896397 / 2 ^ 54, room_y = 0, room_width = 8, room_height = 4,
      windows = [], reasoning = ''''\<rparr>"

definition study_plan :: FloorPlan where
  "study_plan = sample_plan\<lparr>rooms := [study]\<rparr>"

text \<open>A plan of one room whose width, a power of two, is within a factor 16 of the largest double.\<close>

definition hangar_span :: real where
  "hangar_span = 2 ^ 1020"

definition hangar :: Room where
  "hangar =
     \<lparr>room_id = ''h1'', room_name = ''Hangar'', room_type = Utility,
      room_x = 0, room_y = 0, room_width = hangar_span, room_height = 4,
      windows = [], reasoning = ''''\<rparr>"

definition hangar_plan :: FloorPlan where
  "hangar_plan = sample_plan\<lparr>rooms := [hangar]\<rparr>"

section \<open>A sample service and form\<close>

definition sample_climate :: ClimateData where
  "sample_climate =
     \<lparr>climate_location = ''Phoenix'', climateZone = ''Hot arid'',
      averageTemp_min = 12, averageTemp_max = 41,
      solarPotential = ''very high'', prevailingWinds = ''south-west'',
      climate_challenges = [''summer overheating''],
      design_strategies = [''deep overhangs'', ''night flushing''],
      orientation_guidance = ''long axis east-west'',
      window_guidance = ''small openings to the west'',
      zoning_guidance = ''buffer rooms on the west side''\<rparr>"

definition sample_form :: Form where
  "sample_form =
     \<lparr>location = ''Phoenix'', plotDimensions = ''15m x 20m'', priority = Cooling,
      requirements = ''3 bedrooms, open plan living, focus on eco-materials.''\<rparr>"

definition revised_plan :: FloorPlan where
  "revised_plan =
     sample_plan\<lparr>designTitle := ''Courtyard House, revised'',
       performanceMetrics := \<lparr>naturalLightScore = 7 / 8, ventilationEfficiency = 3 / 4,
                               thermalMassUtilization = 1 / 2, solarControlRating = 3 / 4\<rparr>\<rparr>"

definition sample_refinement :: RefinementResult where
  "sample_refinement =
     \<lparr>revised_floor_plan = revised_plan,
      changes_made = [''widened the courtyard''],
      expected_improvements =
        \<lparr>improvement_heat = ''less gain from the west'', improvement_airflow = ''cross flow'',
         heat_improvement_pct = 12, airflow_improvement_pct = 20\<rparr>\<rparr>"

definition sample_verdict :: OptimizationEvaluation where
  "sample_verdict =
     \<lparr>iterate = False, recommended_adjustments = [], expected_benefit = ''marginal''\<rparr>"

definition fresh_diagnostics :: ClimateDiagnostics where
  "fresh_diagnostics =
     \<lparr>heat_risk = [\<lparr>heat_room = ''Kitchen'', heat_level = Medium\<rparr>],
      airflow = [],
      daylight = [\<lparr>daylight_room = ''Bedroom'', daylight_quality = Low\<rparr>]\<rparr>"

text \<open>A service that answers every request, and four that fail at one operation.\<close>

definition good_service :: Service where
  "good_service =
     \<lparr>getClimateData = (\<lambda>loc plot prio. Inr sample_climate),
      generateDesign = (\<lambda>c plot reqs. Inr sample_plan),
      refineDesign = (\<lambda>plan c. Inr sample_refinement),
      evaluateOptimization = (\<lambda>m. Inr sample_verdict),
      getDiagnostics = (\<lambda>plan. Inr fresh_diagnostics)\<rparr>"

definition design_fails :: Service where
  "design_fails = good_service\<lparr>generateDesign := (\<lambda>c plot reqs. Inl (Failure ''quota exceeded''))\<rparr>"

definition refine_fails :: Service where
  "refine_fails = good_service\<lparr>refineDesign := (\<lambda>plan c. Inl (Failure ''bad JSON''))\<rparr>"

definition evaluate_fails :: Service where
  "evaluate_fails = good_service\<lparr>evaluateOptimization := (\<lambda>m. Inl (Failure ''timeout''))\<rparr>"

definition designed_state :: DesignState where
  "designed_state = final_state initial_state (handleGenerate good_service sample_form initial_state)"

section \<open>Notions used in the statements about the renderer\<close>

text \<open>
  The key under which a room is recorded, the two-way containment test of the matching
  code, the last room of a plan recorded under a key (its centroid is the one the record
  ends up with), and the loop of \<open>roomCentroids\<close> over any list of rooms.
\<close>

definition room_key :: "Room \<Rightarrow> string" where
  "room_key r = toLowerCase (room_name r)"



definition record_of :: "(Room \<Rightarrow> Centroid) \<Rightarrow> Room list \<Rightarrow> JsObject" where
  "record_of cen rs =
     fold (\<lambda>r c. set_property c (room_key r) (cen r)) rs \<lparr>own = [], proto = None\<rparr>"



section \<open>Properties of double arithmetic\<close>

subsection \<open>Rounding to a double\<close>

lemma exponent_eq:
  assumes "2 powi e \<le> \<bar>x\<bar>" and "\<bar>x\<bar> < 2 powi (e + 1)" and "- 1022 \<le> e" and "e \<le> 1023"
  shows "exponent x = e"
proof -
  have "2 powi (- 1022) \<le> (2::real) powi e"
    using assms(3) by (intro power_int_increasing) auto
  with assms(1) have ge: "\<not> \<bar>x\<bar> < 2 powi (- 1022)" by linarith
  have "Max {e' \<in> {- 1022 .. 1023}. 2 powi e' \<le> \<bar>x\<bar>} = e"
  proof (rule Max_eqI)
    show "finite {e' \<in> {- 1022 .. 1023}. 2 powi e' \<le> \<bar>x\<bar>}"
      by (rule finite_subset [of _ "{- 1022 .. 1023}"]) auto
    show "e \<in> {e' \<in> {- 1022 .. 1023}. 2 powi e' \<le> \<bar>x\<bar>}" using assms by simp
    fix e' assume "e' \<in> {e' \<in> {- 1022 .. 1023}. 2 powi e' \<le> \<bar>x\<bar>}"
    then have "(2::real) powi e' < 2 powi (e + 1)" using assms(2) by simp
    then have "e' < e + 1"
      by (smt (verit) power_int_increasing)
    then show "e' \<le> e" by simp
  qed
  with ge show ?thesis by (simp add: exponent_def)
qed

lemma exponent_range: "- 1022 \<le> exponent x \<and> exponent x \<le> 1023"
proof (cases "\<bar>x\<bar> < 2 powi (- 1022)")
  case True
  then show ?thesis by (simp add: exponent_def)
next
  case False
  let ?S = "{e \<in> {- 1022 .. 1023}. 2 powi e \<le> \<bar>x\<bar>}"
  have fin: "finite ?S"
    by (rule finite_subset [of _ "{- 1022 .. 1023}"]) auto
  from False have "- 1022 \<in> ?S" by simp
  then have "?S \<noteq> {}" by blast
  with fin have "Max ?S \<in> ?S" by (rule Max_in)
  with False show ?thesis by (simp add: exponent_def)
qed

lemma exponent_le:
  assumes "2 powi (- 1022) \<le> \<bar>x\<bar>"
  shows "2 powi (exponent x) \<le> \<bar>x\<bar>"
proof -
  let ?S = "{e \<in> {- 1022 .. 1023}. 2 powi e \<le> \<bar>x\<bar>}"
  have fin: "finite ?S"
    by (rule finite_subset [of _ "{- 1022 .. 1023}"]) auto
  from assms have "- 1022 \<in> ?S" by simp
  then have "?S \<noteq> {}" by blast
  with fin have "Max ?S \<in> ?S" by (rule Max_in)
  with assms show ?thesis by (simp add: exponent_def)
qed

lemma exponent_bound:
  assumes "\<bar>x\<bar> \<le> 2 powi k" and "- 1022 \<le> k"
  shows "exponent x \<le> k"
proof (cases "\<bar>x\<bar> < 2 powi (- 1022)")
  case True
  with assms(2) show ?thesis by (simp add: exponent_def)
next
  case False
  then have "2 powi (exponent x) \<le> \<bar>x\<bar>" by (simp add: exponent_le)
  with assms(1) have "(2::real) powi (exponent x) \<le> 2 powi k" by linarith
  then show ?thesis
    by (smt (verit) power_int_strict_increasing)
qed

lemma round_even_of_int: "round_even (of_int z) = z"
  by (simp add: round_even_def)

lemma round_even_error: "\<bar>of_int (round_even y) - y\<bar> \<le> 1 / 2"
  unfolding round_even_def by (auto simp: abs_le_iff; linarith)

lemma fl_not_NaN: "fl x \<noteq> NaN"
  by (simp add: fl_def Let_def)

text \<open>A value with at most 53 significant bits, in range, is a double: \<open>fl\<close> returns it.\<close>

lemma fl_exact:
  assumes x: "x = of_int n * 2 powi k" and n: "\<bar>n\<bar> < 2 ^ 53" and k: "- 1074 \<le> k"
    and r: "\<bar>x\<bar> < 2 ^ 1024"
  shows "fl x = Fin x"
proof -
  let ?e = "exponent x"
  have le: "?e \<le> k + 52"
  proof (cases "\<bar>x\<bar> < 2 powi (- 1022)")
    case True
    then show ?thesis using k by (simp add: exponent_def)
  next
    case False
    then have "2 powi ?e \<le> \<bar>x\<bar>" by (simp add: exponent_le)
    also have "\<bar>x\<bar> = of_int \<bar>n\<bar> * 2 powi k"
      by (simp add: x abs_mult)
    also have "\<dots> < 2 ^ 53 * 2 powi k"
    proof -
      from n have "(of_int \<bar>n\<bar> :: real) < of_int (2 ^ 53)"
        by (subst of_int_less_iff) simp
      then show ?thesis by simp
    qed
    also have "\<dots> = 2 powi (k + 53)"
      by (simp add: power_int_add)
    finally have "(2::real) powi ?e < 2 powi (k + 53)" .
    then have "?e < k + 53"
      by (smt (verit) power_int_increasing)
    then show ?thesis by simp
  qed
  define j where "j = nat (k + 52 - ?e)"
  from le have j: "int j = k + 52 - ?e" by (simp add: j_def)
  have "x / 2 powi (?e - 52) = of_int n * 2 powi (k - (?e - 52))"
    by (simp add: x power_int_diff)
  also have "k - (?e - 52) = int j" using j by simp
  also have "of_int n * (2::real) powi int j = of_int (n * 2 ^ j)"
    by simp
  finally have q: "x / 2 powi (?e - 52) = of_int (n * 2 ^ j)" .
  have "of_int (round_even (x / 2 powi (?e - 52))) * 2 powi (?e - 52) = x"
    unfolding q round_even_of_int using q by (simp add: field_simps)
  with r show ?thesis
    by (simp add: fl_def Let_def abs_less_iff)
qed

lemma fl_0: "fl 0 = Fin 0"
  using fl_exact [of 0 0 0] by simp

lemma fl_1: "fl 1 = Fin 1"
  using fl_exact [of 1 1 0] by simp

lemma fl_numeral:
  assumes "(numeral w :: int) < 2 ^ 53"
  shows "fl (numeral w) = Fin (numeral w)"
proof -
  from assms have "(of_int (numeral w) :: real) < of_int (2 ^ 53)"
    by (subst of_int_less_iff)
  then have "(numeral w :: real) < 2 ^ 53" by simp
  also have "(2::real) ^ 53 \<le> 2 ^ 1024" by (rule power_increasing) simp_all
  finally have "(numeral w :: real) < 2 ^ 1024" .
  moreover have "\<bar>numeral w :: real\<bar> = numeral w" by simp
  ultimately have r: "\<bar>numeral w :: real\<bar> < 2 ^ 1024" by (simp only:)
  have x: "(numeral w :: real) = of_int (numeral w) * 2 powi 0" by simp
  from assms have n: "\<bar>numeral w :: int\<bar> < 2 ^ 53" by simp
  show ?thesis by (rule fl_exact [OF x n _ r]) simp
qed

lemma fl_half:
  assumes "(numeral w :: int) < 2 ^ 53"
  shows "fl (numeral w / 2) = Fin (numeral w / 2)"
proof -
  from assms have "(of_int (numeral w) :: real) < of_int (2 ^ 53)"
    by (subst of_int_less_iff)
  then have "(numeral w :: real) < 2 ^ 53" by simp
  also have "(2::real) ^ 53 \<le> 2 ^ 1024" by (rule power_increasing) simp_all
  finally have "(numeral w :: real) < 2 ^ 1024" .
  moreover have "\<bar>numeral w / 2 :: real\<bar> \<le> numeral w"
    using zero_less_numeral [where 'a = real, of w] by (simp only: abs_le_iff) linarith
  ultimately have r: "\<bar>numeral w / 2 :: real\<bar> < 2 ^ 1024"
    by (rule le_less_trans [rotated])
  have x: "(numeral w / 2 :: real) = of_int (numeral w) * 2 powi (- 1)"
    by (simp add: power_int_minus)
  from assms have n: "\<bar>numeral w :: int\<bar> < 2 ^ 53" by simp
  show ?thesis by (rule fl_exact [OF x n _ r]) simp
qed

text \<open>From \<open>2\<^sup>1\<^sup>0\<^sup>2\<^sup>4\<close> on the result is \<^verbatim>\<open>Infinity\<close>.\<close>

lemma round_even_ge_floor: "\<lfloor>y\<rfloor> \<le> round_even y"
  by (simp add: round_even_def)

lemma fl_overflow:
  assumes "2 ^ 1024 \<le> x"
  shows "fl x = PosInf"
proof -
  have p: "(2::real) ^ 1024 = 2 ^ 53 * 2 powi 971"
  proof -
    have "(2::real) ^ 53 * 2 powi 971 = 2 powi 53 * 2 powi 971" by simp
    also have "\<dots> = 2 powi (53 + 971)" by (rule power_int_add [symmetric]) simp
    also have "\<dots> = 2 ^ 1024" by simp
    finally show ?thesis by simp
  qed
  have pos: "(0::real) < 2 ^ 1024" by simp
  with assms have x: "0 < x" "\<bar>x\<bar> = x" by linarith+
  have "(2::real) powi 1023 \<le> 2 powi 1024" by (rule power_int_increasing) simp_all
  also have "(2::real) powi 1024 = 2 ^ 1024" by simp
  finally have b: "2 powi 1023 \<le> \<bar>x\<bar>" using assms x by linarith
  have "(2::real) powi (- 1022) \<le> 2 powi 1023" by (rule power_int_increasing) simp_all
  with b have ge: "\<not> \<bar>x\<bar> < 2 powi (- 1022)" by linarith
  have "Max {e \<in> {- 1022 .. 1023}. 2 powi e \<le> \<bar>x\<bar>} = 1023"
  proof (rule Max_eqI)
    show "finite {e \<in> {- 1022 .. 1023}. 2 powi e \<le> \<bar>x\<bar>}"
      by (rule finite_subset [of _ "{- 1022 .. 1023}"]) auto
    show "1023 \<in> {e \<in> {- 1022 .. 1023}. 2 powi e \<le> \<bar>x\<bar>}" using b by simp
    fix e' assume "e' \<in> {e \<in> {- 1022 .. 1023}. 2 powi e \<le> \<bar>x\<bar>}"
    then show "e' \<le> 1023" by simp
  qed
  with ge have e: "exponent x = 1023" by (simp add: exponent_def)
  have u: "(0::real) < 2 powi 971" by simp
  from assms have "2 ^ 53 * 2 powi 971 \<le> x" by (simp only: p)
  with u have "2 ^ 53 \<le> x / 2 powi 971" by (simp add: pos_le_divide_eq)
  then have "(of_int (2 ^ 53) :: real) \<le> x / 2 powi 971" by simp
  then have "2 ^ 53 \<le> \<lfloor>x / 2 powi 971\<rfloor>" by (simp only: le_floor_iff)
  with round_even_ge_floor [of "x / 2 powi 971"] have "2 ^ 53 \<le> round_even (x / 2 powi 971)"
    by linarith
  then have "(of_int (2 ^ 53) :: real) \<le> of_int (round_even (x / 2 powi 971))"
    by (simp only: of_int_le_iff)
  then have "(2::real) ^ 53 \<le> of_int (round_even (x / 2 powi 971))" by simp
  with u have "(2::real) ^ 53 * 2 powi 971 \<le> of_int (round_even (x / 2 powi 971)) * 2 powi 971"
    by (simp only: mult_le_cancel_right_pos)
  then have "(2::real) ^ 1024 \<le> of_int (round_even (x / 2 powi 971)) * 2 powi 971"
    by (simp only: p)
  moreover have "(1023::int) - 52 = 971" by simp
  ultimately show ?thesis
    unfolding fl_def Let_def e by (simp only: if_True)
qed

text \<open>The value of \<open>fl\<close> in a given binade, for evaluation at concrete arguments.\<close>

lemma fl_binade:
  assumes "2 powi e \<le> \<bar>x\<bar>" and "\<bar>x\<bar> < 2 powi (e + 1)" and "- 1022 \<le> e" and "e \<le> 1023"
    and "round_even (x / 2 powi (e - 52)) = m" and "\<bar>m\<bar> < 2 ^ 53"
  shows "fl x = Fin (of_int m * 2 powi (e - 52))"
proof -
  have e: "exponent x = e" using assms(1-4) by (rule exponent_eq)
  from assms(6) have "(of_int \<bar>m\<bar> :: real) < of_int (2 ^ 53)"
    by (subst of_int_less_iff) simp
  then have m: "\<bar>of_int m :: real\<bar> < 2 ^ 53" by simp
  have "2 powi (e - 52) \<le> (2::real) powi 971"
    using assms(4) by (intro power_int_increasing) auto
  then have "\<bar>of_int m * 2 powi (e - 52) :: real\<bar> \<le> \<bar>of_int m\<bar> * 2 powi 971"
    by (simp add: abs_mult mult_left_mono)
  also have "\<dots> < 2 ^ 53 * 2 powi 971"
    using m by (intro mult_strict_right_mono) simp_all
  also have "\<dots> = 2 ^ 1024" by (simp add: power_add [symmetric])
  finally have "\<bar>of_int m * 2 powi (e - 52) :: real\<bar> < 2 ^ 1024" .
  then show ?thesis
    using assms(5) by (simp add: fl_def Let_def e abs_less_iff)
qed

lemmas fl_small = fl_0 fl_1 fl_numeral fl_half

section \<open>Properties of the renderer\<close>

subsection \<open>Bounding box\<close>

subsection \<open>Bounding box\<close>

lemma num_add_Fin_not_NaN: "num_add (Fin a) (Fin b) \<noteq> NaN"
  by (simp add: fl_not_NaN)

lemma num_le_refl: "a \<noteq> NaN \<Longrightarrow> num_le a a"
  by (cases a) simp_all

lemma num_le_trans: "num_le a b \<Longrightarrow> num_le b c \<Longrightarrow> num_le a c"
  by (cases a; cases b; cases c) simp_all

lemma Math_max_upper:
  assumes "a \<noteq> NaN" and "b \<noteq> NaN"
  shows "Math_max a b \<noteq> NaN \<and> num_le a (Math_max a b) \<and> num_le b (Math_max a b)"
  using assms by (cases a; cases b) simp_all

lemma Math_min_lower:
  assumes "a \<noteq> NaN" and "b \<noteq> NaN"
  shows "Math_min a b \<noteq> NaN \<and> num_le (Math_min a b) a \<and> num_le (Math_min a b) b"
  using assms by (cases a; cases b) simp_all

lemma fold_max_upper:
  assumes "m \<noteq> NaN" and "\<forall>r \<in> set rs. g r \<noteq> NaN"
  shows "fold (\<lambda>r m. Math_max m (g r)) rs m \<noteq> NaN \<and>
         num_le m (fold (\<lambda>r m. Math_max m (g r)) rs m) \<and>
         (\<forall>r \<in> set rs. num_le (g r) (fold (\<lambda>r m. Math_max m (g r)) rs m))"
  using assms
proof (induction rs arbitrary: m)
  case Nil
  then show ?case by (simp add: num_le_refl)
next
  case (Cons r rs)
  let ?m = "Math_max m (g r)"
  from Cons.prems have up: "?m \<noteq> NaN" "num_le m ?m" "num_le (g r) ?m"
    using Math_max_upper [of m "g r"] by simp_all
  from Cons.prems have "\<forall>r \<in> set rs. g r \<noteq> NaN" by simp
  with Cons.IH [of ?m] up(1)
  have ih: "fold (\<lambda>r m. Math_max m (g r)) rs ?m \<noteq> NaN"
    "num_le ?m (fold (\<lambda>r m. Math_max m (g r)) rs ?m)"
    "\<forall>r \<in> set rs. num_le (g r) (fold (\<lambda>r m. Math_max m (g r)) rs ?m)"
    by simp_all
  from up ih show ?case
    by (auto intro: num_le_trans)
qed

lemma fold_min_lower:
  assumes "m \<noteq> NaN" and "\<forall>r \<in> set rs. g r \<noteq> NaN"
  shows "fold (\<lambda>r m. Math_min m (g r)) rs m \<noteq> NaN \<and>
         num_le (fold (\<lambda>r m. Math_min m (g r)) rs m) m \<and>
         (\<forall>r \<in> set rs. num_le (fold (\<lambda>r m. Math_min m (g r)) rs m) (g r))"
  using assms
proof (induction rs arbitrary: m)
  case Nil
  then show ?case by (simp add: num_le_refl)
next
  case (Cons r rs)
  let ?m = "Math_min m (g r)"
  from Cons.prems have low: "?m \<noteq> NaN" "num_le ?m m" "num_le ?m (g r)"
    using Math_min_lower [of m "g r"] by simp_all
  from Cons.prems have "\<forall>r \<in> set rs. g r \<noteq> NaN" by simp
  with Cons.IH [of ?m] low(1)
  have ih: "fold (\<lambda>r m. Math_min m (g r)) rs ?m \<noteq> NaN"
    "num_le (fold (\<lambda>r m. Math_min m (g r)) rs ?m) ?m"
    "\<forall>r \<in> set rs. num_le (fold (\<lambda>r m. Math_min m (g r)) rs ?m) (g r)"
    by simp_all
  from low ih show ?case
    by (auto intro: num_le_trans)
qed

lemma Math_min_Fin: "Math_min (Fin a) (Fin b) = Fin (min a b)"
  by (simp add: min_def)

lemma fold_min_Fin:
  "fold (\<lambda>r m. Math_min m (Fin (f r))) rs (Fin a) = Fin (Min (insert a (f ` set rs)))"
proof (induction rs arbitrary: a)
  case Nil
  then show ?case by simp
next
  case (Cons r rs)
  have "Min (insert (min a (f r)) (f ` set rs)) = Min (insert a (insert (f r) (f ` set rs)))"
  proof (cases "set rs = {}")
    case True
    then show ?thesis by simp
  next
    case False
    then show ?thesis by (simp add: min.assoc)
  qed
  moreover have "fold (\<lambda>r m. Math_min m (Fin (f r))) (r # rs) (Fin a) =
      fold (\<lambda>r m. Math_min m (Fin (f r))) rs (Fin (min a (f r)))"
    by (simp add: Math_min_Fin del: Math_min.simps)
  ultimately show ?case by (simp only: Cons.IH list.set image_insert)
qed

lemma fold_bounds_step:
  "fold bounds_step rs b =
     \<lparr>minX = fold (\<lambda>r m. Math_min m (Fin (room_x r))) rs (minX b),
      minY = fold (\<lambda>r m. Math_min m (Fin (room_y r))) rs (minY b),
      maxX = fold (\<lambda>r m. Math_max m (num_add (Fin (room_x r)) (Fin (room_width r)))) rs (maxX b),
      maxY = fold (\<lambda>r m. Math_max m (num_add (Fin (room_y r)) (Fin (room_height r)))) rs (maxY b)\<rparr>"
  by (induction rs arbitrary: b) (simp_all add: bounds_step_def del: num_add.simps)

lemma bounding_box_folds:
  "bounding_box plan =
     \<lparr>minX = fold (\<lambda>r m. Math_min m (Fin (room_x r))) (rooms plan) PosInf,
      minY = fold (\<lambda>r m. Math_min m (Fin (room_y r))) (rooms plan) PosInf,
      maxX = fold (\<lambda>r m. Math_max m (num_add (Fin (room_x r)) (Fin (room_width r))))
               (rooms plan) NegInf,
      maxY = fold (\<lambda>r m. Math_max m (num_add (Fin (room_y r)) (Fin (room_height r))))
               (rooms plan) NegInf\<rparr>"
  by (simp add: bounding_box_def fold_bounds_step del: num_add.simps)

lemma bounding_box_lower:
  assumes "rooms plan \<noteq> []"
  shows "minX (bounding_box plan) = Fin (Min (room_x ` set (rooms plan)))"
    and "minY (bounding_box plan) = Fin (Min (room_y ` set (rooms plan)))"
proof -
  from assms obtain r rs where rs: "rooms plan = r # rs"
    by (cases "rooms plan") auto
  show "minX (bounding_box plan) = Fin (Min (room_x ` set (rooms plan)))"
    by (simp add: bounding_box_folds rs fold_min_Fin)
  show "minY (bounding_box plan) = Fin (Min (room_y ` set (rooms plan)))"
    by (simp add: bounding_box_folds rs fold_min_Fin)
qed

lemma padding_twice: "num_mul (Fin PADDING) (Fin 2) = Fin 120"
  by (simp add: PADDING_def fl_numeral)

text \<open>
  C2 (amended). For every floor plan, the bounding box computed by the renderer
  satisfies \<open>minX \<le> room.x\<close> and \<open>minY \<le> room.y\<close> for every room, and \<open>maxX\<close> and
  \<open>maxY\<close> are at least the sums \<open>room.x + room.width\<close> and \<open>room.y + room.height\<close> as
  the renderer computes them, in double arithmetic: a rounded sum can lie below the
  exact one. The canvas width is \<open>(maxX - minX) * 35 + 2 * 60\<close> and the canvas height
  \<open>(maxY - minY) * 35 + 2 * 60\<close>, each operation again rounded to a double (or to an
  infinity). With at least one room the lower bounds are the least \<open>room.x\<close> and the
  least \<open>room.y\<close>, without rounding.
\<close>

theorem dimensions_bounding_box:
  "(\<forall>r \<in> set (rooms plan).
      num_le (minX (bounding_box plan)) (Fin (room_x r)) \<and>
      num_le (num_add (Fin (room_x r)) (Fin (room_width r))) (maxX (bounding_box plan)) \<and>
      num_le (minY (bounding_box plan)) (Fin (room_y r)) \<and>
      num_le (num_add (Fin (room_y r)) (Fin (room_height r))) (maxY (bounding_box plan))) \<and>
   width (dimensions plan) =
     num_add (num_mul (num_sub (maxX (bounding_box plan)) (minX (bounding_box plan))) (Fin 35))
       (Fin (2 * 60)) \<and>
   height (dimensions plan) =
     num_add (num_mul (num_sub (maxY (bounding_box plan)) (minY (bounding_box plan))) (Fin 35))
       (Fin (2 * 60)) \<and>
   (rooms plan \<noteq> [] \<longrightarrow>
      minX (bounding_box plan) = Fin (Min (room_x ` set (rooms plan))) \<and>
      minY (bounding_box plan) = Fin (Min (room_y ` set (rooms plan))))"
proof (intro conjI ballI impI)
  fix r assume r: "r \<in> set (rooms plan)"
  have fin: "\<forall>r \<in> set (rooms plan). Fin (f r) \<noteq> NaN" for f :: "Room \<Rightarrow> real"
    by simp
  have sum: "\<forall>r \<in> set (rooms plan). num_add (Fin (f r)) (Fin (g r)) \<noteq> NaN"
    for f g :: "Room \<Rightarrow> real"
    by (simp add: fl_not_NaN)
  from r fold_min_lower [of PosInf "rooms plan" "\<lambda>r. Fin (room_x r)"]
  show "num_le (minX (bounding_box plan)) (Fin (room_x r))"
    by (simp add: bounding_box_folds)
  from r fold_min_lower [of PosInf "rooms plan" "\<lambda>r. Fin (room_y r)"]
  show "num_le (minY (bounding_box plan)) (Fin (room_y r))"
    by (simp add: bounding_box_folds)
  from r sum [of room_x room_width]
    fold_max_upper [of NegInf "rooms plan" "\<lambda>r. num_add (Fin (room_x r)) (Fin (room_width r))"]
  show "num_le (num_add (Fin (room_x r)) (Fin (room_width r))) (maxX (bounding_box plan))"
    by (simp add: bounding_box_folds del: num_add.simps)
  from r sum [of room_y room_height]
    fold_max_upper [of NegInf "rooms plan" "\<lambda>r. num_add (Fin (room_y r)) (Fin (room_height r))"]
  show "num_le (num_add (Fin (room_y r)) (Fin (room_height r))) (maxY (bounding_box plan))"
    by (simp add: bounding_box_folds del: num_add.simps)
next
  show "width (dimensions plan) =
     num_add (num_mul (num_sub (maxX (bounding_box plan)) (minX (bounding_box plan))) (Fin 35))
       (Fin (2 * 60))"
    by (simp add: dimensions_def Let_def padding_twice SCALE_def del: num_mul.simps num_add.simps)
  show "height (dimensions plan) =
     num_add (num_mul (num_sub (maxY (bounding_box plan)) (minY (bounding_box plan))) (Fin 35))
       (Fin (2 * 60))"
    by (simp add: dimensions_def Let_def padding_twice SCALE_def del: num_mul.simps num_add.simps)
next
  assume "rooms plan \<noteq> []"
  then show "minX (bounding_box plan) = Fin (Min (room_x ` set (rooms plan)))"
    "minY (bounding_box plan) = Fin (Min (room_y ` set (rooms plan)))"
    by (rule bounding_box_lower)+
qed

theorem dimensions_bounding_box_witness:
  "kitchen \<in> set (rooms sample_plan) \<and> rooms sample_plan \<noteq> [] \<and>
   num_le (minX (bounding_box sample_plan)) (Fin (room_x kitchen)) \<and>
   num_le (num_add (Fin (room_x kitchen)) (Fin (room_width kitchen)))
     (maxX (bounding_box sample_plan)) \<and>
   num_le (minY (bounding_box sample_plan)) (Fin (room_y kitchen)) \<and>
   num_le (num_add (Fin (room_y kitchen)) (Fin (room_height kitchen)))
     (maxY (bounding_box sample_plan)) \<and>
   minX (bounding_box sample_plan) = Fin 0 \<and> minY (bounding_box sample_plan) = Fin 0 \<and>
   width (dimensions sample_plan) = Fin 400 \<and> height (dimensions sample_plan) = Fin 400"
proof -
  have m: "kitchen \<in> set (rooms sample_plan)" and ne: "rooms sample_plan \<noteq> []"
    by (simp_all add: sample_plan_def)
  have bb: "bounding_box sample_plan = \<lparr>minX = Fin 0, minY = Fin 0, maxX = Fin 8, maxY = Fin 8\<rparr>"
    by (simp add: bounding_box_def sample_plan_def bounds_step_def living_room_def kitchen_def
        master_bedroom_def bedroom_def fl_small)
  have ar: "num_add (num_mul (num_sub (Fin 8) (Fin 0)) (Fin 35)) (Fin (2 * 60)) = Fin 400"
    by (simp add: num_sub_def fl_small)
  from dimensions_bounding_box [of sample_plan] m ne bb ar show ?thesis
    by auto
qed

text \<open>The roundings of the two sample computations, each in its binade.\<close>

lemma fl_study_maxX: "fl (147718067777752269 / 18014398509481984) = Fin (2308094809027379 / 281474976710656)"
  by (rule fl_binade [where e = "3" and m = 4616189618054758, THEN trans])
     (simp_all add: round_even_def)

lemma fl_study_span: "fl (144115188075855859 / 18014398509481984) = Fin (9007199254740991 / 1125899906842624)"
  by (rule fl_binade [where e = "2" and m = 9007199254740991, THEN trans])
     (simp_all add: round_even_def)

lemma fl_study_scaled: "fl (315251973915934685 / 1125899906842624) = Fin (4925812092436479 / 17592186044416)"
  by (rule fl_binade [where e = "8" and m = 4925812092436479, THEN trans])
     (simp_all add: round_even_def)

lemma fl_study_width: "fl (7036874417766399 / 17592186044416) = Fin (7036874417766399 / 17592186044416)"
  by (rule fl_binade [where e = "8" and m = 7036874417766399, THEN trans])
     (simp_all add: round_even_def)

lemma fl_score_sum: "fl (10358279142952141 / 4503599627370496) = Fin (2589569785738035 / 1125899906842624)"
  by (rule fl_binade [where e = "1" and m = 5179139571476070, THEN trans])
     (simp_all add: round_even_def)

lemma fl_score_mean: "fl (2589569785738035 / 4503599627370496) = Fin (2589569785738035 / 4503599627370496)"
  by (rule fl_binade [where e = "- 1" and m = 5179139571476070, THEN trans])
     (simp_all add: round_even_def)

lemma fl_score_scaled: "fl (64739244643450875 / 1125899906842624) = Fin (8092405580431359 / 140737488355328)"
  by (rule fl_binade [where e = "5" and m = 8092405580431359, THEN trans])
     (simp_all add: round_even_def)

lemma study_bounding_box:
  "bounding_box study_plan =
     \<lparr>minX = Fin (3602879701896397 / 2 ^ 54), minY = Fin 0,
      maxX = Fin (4616189618054758 / 2 ^ 49), maxY = Fin 4\<rparr>"
  by (simp add: bounding_box_def study_plan_def study_def bounds_step_def fl_small fl_study_maxX)

lemma study_width: "width (dimensions study_plan) = Fin (7036874417766399 / 2 ^ 44)"
  by (simp add: dimensions_def study_bounding_box num_sub_def SCALE_def PADDING_def fl_small
      fl_study_span fl_study_scaled fl_study_width)

text \<open>
  C2 read in exact arithmetic fails. For one room with \<open>x\<close> the double nearest to 0.2
  and width 8, the computed \<open>maxX\<close> is the double below 8.2 and lies under the exact
  sum \<open>x + width\<close>, and the computed canvas width, 399.99999999999994, is less than
  \<open>(maxX - minX) * 35 + 2 * 60\<close> evaluated exactly on the computed bounds, and less than
  the 400 that the exact bounds give.
\<close>

theorem bounding_box_rounding_counterexample:
  "rooms study_plan = [study] \<and>
   room_x study = 3602879701896397 / 2 ^ 54 \<and> room_width study = 8 \<and>
   maxX (bounding_box study_plan) = Fin (4616189618054758 / 2 ^ 49) \<and>
   4616189618054758 / 2 ^ 49 < room_x study + room_width study \<and>
   minX (bounding_box study_plan) = Fin (3602879701896397 / 2 ^ 54) \<and>
   width (dimensions study_plan) = Fin (7036874417766399 / 2 ^ 44) \<and>
   (7036874417766399 / 2 ^ 44 :: real) <
     (4616189618054758 / 2 ^ 49 - 3602879701896397 / 2 ^ 54) * 35 + 2 * 60 \<and>
   (7036874417766399 / 2 ^ 44 :: real) <
     ((room_x study + room_width study) - room_x study) * 35 + 2 * 60"
  by (simp add: study_bounding_box study_width) (simp add: study_plan_def study_def)

text \<open>
  The canvas of a plan can also be infinite although every room is finite: the width of the
  one room of \<open>hangar_plan\<close> is a double, and its product with the scale overflows.
\<close>

lemma fl_hangar: "fl hangar_span = Fin hangar_span"
proof -
  have x: "hangar_span = of_int 1 * 2 powi 1020" by (simp add: hangar_span_def)
  have "(2::real) ^ 1020 < 2 ^ 1024" by (rule power_strict_increasing) simp_all
  moreover have "\<bar>(2::real) ^ 1020\<bar> = 2 ^ 1020" by simp
  ultimately have r: "\<bar>hangar_span\<bar> < 2 ^ 1024" by (simp only: hangar_span_def)
  show ?thesis by (rule fl_exact [OF x _ _ r]) simp_all
qed

lemma fl_hangar_scaled: "fl (hangar_span * 35) = PosInf"
proof -
  have "(2::real) ^ 1024 = 2 ^ 1020 * 2 ^ 4" by (simp only: power_add [symmetric]) simp
  also have "\<dots> \<le> 2 ^ 1020 * 35" by (rule mult_left_mono) simp_all
  finally show ?thesis unfolding hangar_span_def [symmetric] by (rule fl_overflow)
qed

lemma hangar_width:
  "room_width hangar = 2 ^ 1020 \<and> width (dimensions hangar_plan) = PosInf"
proof
  show "room_width hangar = 2 ^ 1020" by (simp add: hangar_def hangar_span_def)
  show "width (dimensions hangar_plan) = PosInf"
    by (simp add: dimensions_def bounding_box_def bounds_step_def hangar_plan_def hangar_def
      num_sub_def SCALE_def PADDING_def fl_small fl_hangar fl_hangar_scaled)
qed

subsection \<open>Average score\<close>

lemma sample_score: "avgScore (Some sample_metrics) = Some (Fin 57)"
  by (simp add: avgScore_def sample_metrics_def fl_small fl_score_sum fl_score_mean
      fl_score_scaled)

lemma fl_error:
  assumes x: "\<bar>x\<bar> \<le> 2 powi k" and k: "- 1022 \<le> k" "k \<le> 1022"
  shows "\<exists>v. fl x = Fin v \<and> \<bar>v - x\<bar> \<le> 2 powi (k - 53)"
proof -
  let ?e = "exponent x"
  let ?u = "(2::real) powi (?e - 52)"
  let ?v = "of_int (round_even (x / ?u)) * ?u"
  have u: "0 < ?u" by simp
  have e: "?e \<le> k" using x k(1) by (rule exponent_bound)
  have "\<bar>?v - x\<bar> = \<bar>of_int (round_even (x / ?u)) - x / ?u\<bar> * ?u"
  proof -
    have "?v - x = (of_int (round_even (x / ?u)) - x / ?u) * ?u"
      using u by (simp add: field_simps)
    then show ?thesis using u by (simp add: abs_mult)
  qed
  also have "\<dots> \<le> 1 / 2 * ?u"
    using round_even_error [of "x / ?u"] u by (intro mult_right_mono) simp_all
  also have "\<dots> = 2 powi (?e - 53)"
    by (simp add: power_int_diff)
  also have "\<dots> \<le> 2 powi (k - 53)"
    using e by (intro power_int_increasing) simp_all
  finally have err: "\<bar>?v - x\<bar> \<le> 2 powi (k - 53)" .
  have "(2::real) powi (k - 53) \<le> 2 powi k"
    by (intro power_int_increasing) simp_all
  with err x have "\<bar>?v\<bar> \<le> 2 powi k + 2 powi k" by linarith
  also have "\<dots> = 2 powi (k + 1)" by (simp add: power_int_add)
  also have "\<dots> \<le> 2 powi 1023"
    using k(2) by (intro power_int_increasing) simp_all
  also have "\<dots> < 2 powi 1024"
    by (intro power_int_strict_increasing) simp_all
  finally have "\<bar>?v\<bar> < 2 ^ 1024" by simp
  then have "fl x = Fin ?v"
    by (simp add: fl_def Let_def abs_less_iff)
  with err show ?thesis by blast
qed

lemma Math_round_nearest:
  "\<exists>n. Math_round (Fin v) = Fin (of_int n) \<and> \<bar>of_int n - v\<bar> \<le> 1 / 2 \<and> n = round v"
proof -
  have "(if v - of_int \<lfloor>v\<rfloor> < 1 / 2 then \<lfloor>v\<rfloor> else \<lfloor>v\<rfloor> + 1) = round v"
    unfolding round_def by (rule sym, rule floor_unique) (auto simp: not_less; linarith)+
  then show ?thesis
    using of_int_round_abs_le [of v] by simp
qed

lemma avgScore_unit_interval:
  fixes a b c d :: real
  assumes a: "0 \<le> a" "a \<le> 1" and b: "0 \<le> b" "b \<le> 1"
    and c: "0 \<le> c" "c \<le> 1" and d: "0 \<le> d" "d \<le> 1"
  shows "\<exists>n. Math_round (num_mul (num_div (num_add (num_add (num_add (Fin a) (Fin b)) (Fin c))
                 (Fin d)) (Fin 4)) (Fin 100)) = Fin (of_int n) \<and>
             0 \<le> n \<and> n \<le> 100 \<and>
             \<bar>of_int n - ((a + b + c + d) / 4) * 100\<bar> \<le> 1 / 2 + 1 / 2 ^ 43"
proof -
  define eps :: real where "eps = 1 / 2 ^ 43"
  have eps: "0 < eps" "eps \<le> 1 / 4" by (simp_all add: eps_def)
  have p: "(2::real) powi 1 = 2" "(2::real) powi 2 = 4" "(2::real) powi 3 = 8"
    "(2::real) powi 7 = 128"
    by simp_all
  have q: "(2::real) powi (1 - 53) = eps / 512" "(2::real) powi (2 - 53) = eps / 256"
    "(2::real) powi (3 - 53) = eps / 128" "(2::real) powi (7 - 53) = eps / 8"
    by (simp_all add: eps_def power_int_minus_divide)
  from a b have "\<bar>a + b\<bar> \<le> 2 powi 1"
    unfolding p by linarith
  from fl_error [OF this] obtain v1 where
    v1: "fl (a + b) = Fin v1" "\<bar>v1 - (a + b)\<bar> \<le> eps / 512"
    unfolding q by auto
  from v1(2) a b c eps have "\<bar>v1 + c\<bar> \<le> 2 powi 2"
    unfolding p by linarith
  from fl_error [OF this] obtain v2 where
    v2: "fl (v1 + c) = Fin v2" "\<bar>v2 - (v1 + c)\<bar> \<le> eps / 256"
    unfolding q by auto
  from v1(2) v2(2) a b c d eps have "\<bar>v2 + d\<bar> \<le> 2 powi 3"
    unfolding p by linarith
  from fl_error [OF this] obtain v3 where
    v3: "fl (v2 + d) = Fin v3" "\<bar>v3 - (v2 + d)\<bar> \<le> eps / 128"
    unfolding q by auto
  from v1(2) v2(2) v3(2) a b c d eps have "\<bar>v3 / 4\<bar> \<le> 2 powi 1"
    unfolding p by linarith
  from fl_error [OF this] obtain v4 where
    v4: "fl (v3 / 4) = Fin v4" "\<bar>v4 - v3 / 4\<bar> \<le> eps / 512"
    unfolding q by auto
  from v1(2) v2(2) v3(2) v4(2) a b c d eps have "\<bar>v4 * 100\<bar> \<le> 2 powi 7"
    unfolding p by linarith
  from fl_error [OF this] obtain v5 where
    v5: "fl (v4 * 100) = Fin v5" "\<bar>v5 - v4 * 100\<bar> \<le> eps / 8"
    unfolding q by auto
  have computed: "num_mul (num_div (num_add (num_add (num_add (Fin a) (Fin b)) (Fin c)) (Fin d))
      (Fin 4)) (Fin 100) = Fin v5"
    by (simp add: v1 v2 v3 v4 v5)
  obtain n where n: "Math_round (Fin v5) = Fin (of_int n)" "\<bar>of_int n - v5\<bar> \<le> 1 / 2"
    using Math_round_nearest [of v5] by blast
  from v1(2) v2(2)
  have e2: "\<bar>v2 - (a + b + c)\<bar> \<le> 3 * eps / 512"
    by argo
  from v3(2) e2 have e3: "\<bar>v3 - (a + b + c + d)\<bar> \<le> 7 * eps / 512"
    by argo
  from v4(2) e3 have e4: "\<bar>v4 - (a + b + c + d) / 4\<bar> \<le> 11 * eps / 2048"
    by argo
  from v5(2) e4 eps have "\<bar>v5 - ((a + b + c + d) / 4) * 100\<bar> \<le> eps"
    by argo
  with n(2) have close: "\<bar>of_int n - ((a + b + c + d) / 4) * 100\<bar> \<le> 1 / 2 + eps"
    by linarith
  from a b c d have "0 \<le> ((a + b + c + d) / 4) * 100" "((a + b + c + d) / 4) * 100 \<le> 100"
    by simp_all
  with close eps have "- 1 < (of_int n :: real)" "(of_int n :: real) < 101" by linarith+
  then have "0 \<le> n" "n \<le> 100" by linarith+
  moreover from n(1) computed
  have "Math_round (num_mul (num_div (num_add (num_add (num_add (Fin a) (Fin b)) (Fin c))
          (Fin d)) (Fin 4)) (Fin 100)) = Fin (of_int n)"
    by (simp only:)
  moreover note close [unfolded eps_def]
  ultimately show ?thesis by blast
qed

text \<open>
  C8 read in exact arithmetic fails. For the metrics 0.5, 0.5, 0.5 and the double
  nearest to 0.8 the card computes 57.49999999999999 and shows 57, while the exact
  mean times 100 is just above 57.5 and rounds to 58.
\<close>

theorem avgScore_rounding_counterexample:
  "naturalLightScore sample_metrics = 1 / 2 \<and> ventilationEfficiency sample_metrics = 1 / 2 \<and>
   thermalMassUtilization sample_metrics = 1 / 2 \<and>
   solarControlRating sample_metrics = 3602879701896397 / 2 ^ 52 \<and>
   avgScore (Some sample_metrics) = Some (Fin 57) \<and>
   round (((naturalLightScore sample_metrics + ventilationEfficiency sample_metrics
            + thermalMassUtilization sample_metrics + solarControlRating sample_metrics) / 4)
          * 100) = 58"
  by (simp add: sample_score) (simp add: sample_metrics_def round_def)

text \<open>
  C8 (amended). For every set of four performance metrics the average score shown is
  \<^verbatim>\<open>Math.round\<close> of the mean of the four metrics multiplied by 100 as the card
  computes it, in double arithmetic: the three additions from left to right, the
  division by 4 and the multiplication by 100 are each rounded to the nearest double.
  For metrics between 0 and 1 the score is an integer between 0 and 100 that differs from
  the exact mean times 100 by at most \<open>1/2 + 2\<^sup>-\<^sup>4\<^sup>3\<close>, and so from its rounded value
  by at most one.
\<close>

theorem avgScore_double_arithmetic:
  fixes m :: PerformanceMetrics
  defines "a \<equiv> naturalLightScore m" and "b \<equiv> ventilationEfficiency m"
    and "c \<equiv> thermalMassUtilization m" and "d \<equiv> solarControlRating m"
  shows
    "avgScore (Some m) =
       Some (Math_round
         (num_mul (num_div (num_add (num_add (num_add (Fin a) (Fin b)) (Fin c)) (Fin d)) (Fin 4))
            (Fin 100))) \<and>
     (0 \<le> a \<and> a \<le> 1 \<and> 0 \<le> b \<and> b \<le> 1 \<and> 0 \<le> c \<and> c \<le> 1 \<and> 0 \<le> d \<and> d \<le> 1 \<longrightarrow>
        (\<exists>n. avgScore (Some m) = Some (Fin (of_int n)) \<and> 0 \<le> n \<and> n \<le> 100 \<and>
             \<bar>of_int n - ((a + b + c + d) / 4) * 100\<bar> \<le> 1 / 2 + 1 / 2 ^ 43 \<and>
             \<bar>n - round (((a + b + c + d) / 4) * 100)\<bar> \<le> 1))"
proof (intro conjI impI)
  show eq: "avgScore (Some m) =
       Some (Math_round
         (num_mul (num_div (num_add (num_add (num_add (Fin a) (Fin b)) (Fin c)) (Fin d)) (Fin 4))
            (Fin 100)))"
    by (simp add: avgScore_def a_def b_def c_def d_def
        del: num_add.simps num_mul.simps num_div.simps Math_round.simps)
  assume "0 \<le> a \<and> a \<le> 1 \<and> 0 \<le> b \<and> b \<le> 1 \<and> 0 \<le> c \<and> c \<le> 1 \<and> 0 \<le> d \<and> d \<le> 1"
  then obtain n where n: "Math_round
         (num_mul (num_div (num_add (num_add (num_add (Fin a) (Fin b)) (Fin c)) (Fin d)) (Fin 4))
            (Fin 100)) = Fin (of_int n)" "0 \<le> n" "n \<le> 100"
    "\<bar>of_int n - ((a + b + c + d) / 4) * 100\<bar> \<le> 1 / 2 + 1 / 2 ^ 43"
    using avgScore_unit_interval [of a b c d] by blast
  have "\<bar>of_int (round (((a + b + c + d) / 4) * 100)) - ((a + b + c + d) / 4) * 100\<bar> \<le> 1 / 2"
    by (rule of_int_round_abs_le)
  moreover have "(1::real) / 2 ^ 43 < 1" by simp
  ultimately have "\<bar>(of_int n :: real) - of_int (round (((a + b + c + d) / 4) * 100))\<bar> < 2"
    using n(4) by linarith
  then have "\<bar>n - round (((a + b + c + d) / 4) * 100)\<bar> < 2"
    by linarith
  then have "\<bar>n - round (((a + b + c + d) / 4) * 100)\<bar> \<le> 1" by simp
  with n eq show "\<exists>n. avgScore (Some m) = Some (Fin (of_int n)) \<and> 0 \<le> n \<and> n \<le> 100 \<and>
             \<bar>of_int n - ((a + b + c + d) / 4) * 100\<bar> \<le> 1 / 2 + 1 / 2 ^ 43 \<and>
             \<bar>n - round (((a + b + c + d) / 4) * 100)\<bar> \<le> 1"
    by auto
qed

theorem avgScore_double_arithmetic_witness:
  "0 \<le> naturalLightScore sample_metrics \<and> naturalLightScore sample_metrics \<le> 1 \<and>
   0 \<le> ventilationEfficiency sample_metrics \<and> ventilationEfficiency sample_metrics \<le> 1 \<and>
   0 \<le> thermalMassUtilization sample_metrics \<and> thermalMassUtilization sample_metrics \<le> 1 \<and>
   0 \<le> solarControlRating sample_metrics \<and> solarControlRating sample_metrics \<le> 1 \<and>
   avgScore (Some sample_metrics) = Some (Fin 57) \<and>
   \<bar>57 - ((naturalLightScore sample_metrics + ventilationEfficiency sample_metrics
           + thermalMassUtilization sample_metrics + solarControlRating sample_metrics) / 4)
          * 100\<bar> \<le> 1 / 2 + 1 / 2 ^ 43"
proof -
  have range: "0 \<le> naturalLightScore sample_metrics \<and> naturalLightScore sample_metrics \<le> 1 \<and>
   0 \<le> ventilationEfficiency sample_metrics \<and> ventilationEfficiency sample_metrics \<le> 1 \<and>
   0 \<le> thermalMassUtilization sample_metrics \<and> thermalMassUtilization sample_metrics \<le> 1 \<and>
   0 \<le> solarControlRating sample_metrics \<and> solarControlRating sample_metrics \<le> 1"
    by (simp add: sample_metrics_def)
  with avgScore_double_arithmetic [of sample_metrics] obtain n where
    n: "avgScore (Some sample_metrics) = Some (Fin (of_int n))"
    "\<bar>of_int n - ((naturalLightScore sample_metrics + ventilationEfficiency sample_metrics
           + thermalMassUtilization sample_metrics + solarControlRating sample_metrics) / 4)
          * 100\<bar> \<le> 1 / 2 + 1 / 2 ^ 43"
    by blast
  from n(1) sample_score have "(of_int n :: real) = 57" by simp
  with n(2) range sample_score show ?thesis by simp
qed

section \<open>Properties of the controller\<close>

lemmas updater_defs =
  generate_begin_def generate_done_def generate_catch_def refine_begin_def refine_done_def
  evaluate_begin_def evaluate_done_def refine_catch_def diagnose_begin_def diagnose_done_def
  diagnose_catch_def

lemma step_climate_plan:
  "step s s' \<Longrightarrow> (climate s \<noteq> None \<longrightarrow> floorPlan s \<noteq> None) \<Longrightarrow>
   climate s' \<noteq> None \<longrightarrow> floorPlan s' \<noteq> None"
  by (induction rule: step.induct) (auto simp: updater_defs split: option.splits)

lemma reachable_climate_plan:
  "reachable s \<Longrightarrow> climate s \<noteq> None \<longrightarrow> floorPlan s \<noteq> None"
proof (induction rule: reachable.induct)
  case 1
  then show ?case by (simp add: initial_state_def)
next
  case (2 s s')
  then show ?case using step_climate_plan by blast
qed

lemma successively_step_reachable:
  "successively step (s # ss) \<Longrightarrow> reachable s \<Longrightarrow> s' \<in> set ss \<Longrightarrow> reachable s'"
proof (induction ss arbitrary: s)
  case Nil
  then show ?case by simp
next
  case (Cons a ss)
  from Cons.prems have a: "reachable a"
    by (auto intro: reachable.intros(2))
  from Cons.prems have "successively step (a # ss)" by simp
  with Cons.IH a Cons.prems(3) show ?case by auto
qed

lemma handleGenerate_steps: "successively step (s # states (handleGenerate svc form s))"
  by (auto simp: handleGenerate_def Let_def step.intros split: sum.splits)

lemma handleRefine_steps: "successively step (s # states (handleRefine svc s))"
  by (auto simp: handleRefine_def Let_def step.intros split: sum.splits option.splits)

lemma handleRunDiagnostics_steps: "successively step (s # states (handleRunDiagnostics svc s))"
  by (auto simp: handleRunDiagnostics_def Let_def step.intros split: sum.splits option.splits)

lemma step_history: "step s s' \<Longrightarrow> prefix (history s) (history s')"
  by (induction rule: step.induct) (auto simp: updater_defs)

lemma successively_step_history:
  "successively step ss \<Longrightarrow> successively (\<lambda>a b. prefix (history a) (history b)) ss"
  by (erule successively_mono) (simp add: step_history)

lemma designed_state_eq:
  "designed_state =
     initial_state\<lparr>climate := Some sample_climate, floorPlan := Some sample_plan,
       history := [''Designed for Phoenix'']\<rparr>"
  by (simp add: designed_state_def final_state_def handleGenerate_def good_service_def
      sample_form_def generate_begin_def generate_done_def initial_state_def)

lemma reachable_designed_state: "reachable designed_state"
proof -
  have "designed_state \<in> set (states (handleGenerate good_service sample_form initial_state))"
    by (simp add: designed_state_def final_state_def handleGenerate_def good_service_def
        sample_form_def Let_def)
  with successively_step_reachable [OF handleGenerate_steps reachable.intros(1)]
  show ?thesis by blast
qed

subsection \<open>Generate\<close>

text \<open>
  C3 (amended). In the Generate workflow with a non-empty location and a climate fetch
  that succeeds: if the design generation succeeds too, exactly two requests were issued,
  the climate fetch and then the design generation on the fetched climate, and the final
  state holds that climate and that plan with the generating flag false; if the design
  generation fails, the same two requests were issued, the final state has the error
  field set to a non-empty message and the generating flag false, and the run stores no
  floor plan: the floor plan field keeps the value it had before the run, in the final
  state and in every state on the way.
\<close>

theorem handleGenerate_workflow:
  fixes svc form s
  defines "run \<equiv> handleGenerate svc form s"
  defines "call1 \<equiv> GetClimateData (location form) (plotDimensions form) (priority form)"
  defines "call2 \<equiv> \<lambda>c. GenerateDesign c (plotDimensions form) (requirements form)"
  assumes loc: "location form \<noteq> []"
    and fetch: "getClimateData svc (location form) (plotDimensions form) (priority form) = Inr c"
  shows
    "(generateDesign svc c (plotDimensions form) (requirements form) = Inr plan \<longrightarrow>
        calls run = [call1, call2 c] \<and>
        climate (final_state s run) = Some c \<and>
        floorPlan (final_state s run) = Some plan \<and>
        \<not> isGenerating (final_state s run)) \<and>
     (generateDesign svc c (plotDimensions form) (requirements form) = Inl err \<longrightarrow>
        calls run = [call1, call2 c] \<and>
        error (final_state s run) \<noteq> None \<and>
        error (final_state s run) \<noteq> Some [] \<and>
        \<not> isGenerating (final_state s run) \<and>
        floorPlan (final_state s run) = floorPlan s \<and>
        (\<forall>s' \<in> set (states run). floorPlan s' = floorPlan s))"
  using loc fetch
  by (simp add: run_def call1_def call2_def handleGenerate_def final_state_def Let_def
      generate_begin_def generate_done_def generate_catch_def)

theorem handleGenerate_workflow_witness:
  "location sample_form \<noteq> [] \<and>
   generateDesign good_service sample_climate (plotDimensions sample_form)
     (requirements sample_form) = Inr sample_plan \<and>
   generateDesign design_fails sample_climate (plotDimensions sample_form)
     (requirements sample_form) = Inl (Failure ''quota exceeded'') \<and>
   calls (handleGenerate good_service sample_form initial_state) =
     [GetClimateData ''Phoenix'' ''15m x 20m'' Cooling,
      GenerateDesign sample_climate ''15m x 20m''
        ''3 bedrooms, open plan living, focus on eco-materials.''] \<and>
   climate (final_state initial_state (handleGenerate good_service sample_form initial_state))
     = Some sample_climate \<and>
   floorPlan (final_state initial_state (handleGenerate good_service sample_form initial_state))
     = Some sample_plan \<and>
   \<not> isGenerating (final_state initial_state
        (handleGenerate good_service sample_form initial_state)) \<and>
   error (final_state initial_state (handleGenerate design_fails sample_form initial_state))
     \<noteq> None \<and>
   \<not> isGenerating (final_state initial_state
        (handleGenerate design_fails sample_form initial_state)) \<and>
   floorPlan (final_state initial_state (handleGenerate design_fails sample_form initial_state))
     = None"
proof -
  have loc: "location sample_form \<noteq> []"
    by (simp add: sample_form_def)
  have fetch1: "getClimateData good_service (location sample_form) (plotDimensions sample_form)
      (priority sample_form) = Inr sample_climate"
    by (simp add: good_service_def)
  have fetch2: "getClimateData design_fails (location sample_form) (plotDimensions sample_form)
      (priority sample_form) = Inr sample_climate"
    by (simp add: design_fails_def good_service_def)
  have ok: "generateDesign good_service sample_climate (plotDimensions sample_form)
     (requirements sample_form) = Inr sample_plan"
    by (simp add: good_service_def)
  have bad: "generateDesign design_fails sample_climate (plotDimensions sample_form)
     (requirements sample_form) = Inl (Failure ''quota exceeded'')"
    by (simp add: design_fails_def)
  have none: "floorPlan initial_state = None"
    by (simp add: initial_state_def)
  from handleGenerate_workflow [OF loc fetch1, of sample_plan initial_state] ok
  have A: "calls (handleGenerate good_service sample_form initial_state) =
     [GetClimateData ''Phoenix'' ''15m x 20m'' Cooling,
      GenerateDesign sample_climate ''15m x 20m''
        ''3 bedrooms, open plan living, focus on eco-materials.''] \<and>
   climate (final_state initial_state (handleGenerate good_service sample_form initial_state))
     = Some sample_climate \<and>
   floorPlan (final_state initial_state (handleGenerate good_service sample_form initial_state))
     = Some sample_plan \<and>
   \<not> isGenerating (final_state initial_state
        (handleGenerate good_service sample_form initial_state))"
    by (simp add: sample_form_def)
  from handleGenerate_workflow [OF loc fetch2, of _ initial_state "Failure ''quota exceeded''"] bad none
  have B: "error (final_state initial_state (handleGenerate design_fails sample_form initial_state))
     \<noteq> None \<and>
   \<not> isGenerating (final_state initial_state
        (handleGenerate design_fails sample_form initial_state)) \<and>
   floorPlan (final_state initial_state (handleGenerate design_fails sample_form initial_state))
     = None"
    by simp
  from loc ok bad A B show ?thesis by simp
qed

text \<open>
  C3 as first stated asks for a final state without a floor plan. A second run of
  Generate, on a state that holds the plan of an earlier run, fails at the design
  generation and ends with that earlier plan still in place.
\<close>

theorem handleGenerate_stale_plan_counterexample:
  "reachable designed_state \<and>
   location sample_form \<noteq> [] \<and>
   getClimateData design_fails (location sample_form) (plotDimensions sample_form)
     (priority sample_form) = Inr sample_climate \<and>
   generateDesign design_fails sample_climate (plotDimensions sample_form)
     (requirements sample_form) = Inl (Failure ''quota exceeded'') \<and>
   floorPlan (final_state designed_state (handleGenerate design_fails sample_form designed_state))
     = Some sample_plan"
proof (intro conjI)
  show "reachable designed_state"
    by (rule reachable_designed_state)
  show "floorPlan (final_state designed_state
          (handleGenerate design_fails sample_form designed_state)) = Some sample_plan"
    by (simp add: designed_state_eq sample_form_def design_fails_def good_service_def
        handleGenerate_def final_state_def Let_def generate_begin_def generate_catch_def
        initial_state_def)
qed (simp_all add: sample_form_def design_fails_def good_service_def)

text \<open>
  C4 as stated asks for a run in which the climate fetch succeeds, the design generation
  fails and the fetched climate is in the state all the same, a climate without a plan.
  There is no such run: from a reachable state no state of the run has a climate and no
  plan, and from any state no state of the run holds the fetched climate unless the state
  before the run held it already.
\<close>

theorem generate_no_partial_state_counterexample:
  "\<not> (\<exists>svc form s c err s'.
        reachable s \<and> location form \<noteq> [] \<and>
        getClimateData svc (location form) (plotDimensions form) (priority form) = Inr c \<and>
        generateDesign svc c (plotDimensions form) (requirements form) = Inl err \<and>
        s' \<in> set (states (handleGenerate svc form s)) \<and>
        climate s' \<noteq> None \<and> floorPlan s' = None) \<and>
   \<not> (\<exists>svc form s c err s'.
        location form \<noteq> [] \<and>
        getClimateData svc (location form) (plotDimensions form) (priority form) = Inr c \<and>
        generateDesign svc c (plotDimensions form) (requirements form) = Inl err \<and>
        s' \<in> set (states (handleGenerate svc form s)) \<and>
        climate s \<noteq> Some c \<and> climate s' = Some c)"
proof (intro conjI notI)
  assume "\<exists>svc form s c err s'.
        reachable s \<and> location form \<noteq> [] \<and>
        getClimateData svc (location form) (plotDimensions form) (priority form) = Inr c \<and>
        generateDesign svc c (plotDimensions form) (requirements form) = Inl err \<and>
        s' \<in> set (states (handleGenerate svc form s)) \<and>
        climate s' \<noteq> None \<and> floorPlan s' = None"
  then obtain svc form s s' where "reachable s" "s' \<in> set (states (handleGenerate svc form s))"
    and bad: "climate s' \<noteq> None" "floorPlan s' = None"
    by blast
  then have "reachable s'"
    using successively_step_reachable [OF handleGenerate_steps] by blast
  with reachable_climate_plan bad show False by blast
next
  assume "\<exists>svc form s c err s'.
        location form \<noteq> [] \<and>
        getClimateData svc (location form) (plotDimensions form) (priority form) = Inr c \<and>
        generateDesign svc c (plotDimensions form) (requirements form) = Inl err \<and>
        s' \<in> set (states (handleGenerate svc form s)) \<and>
        climate s \<noteq> Some c \<and> climate s' = Some c"
  then show False
    by (auto simp: handleGenerate_def Let_def generate_begin_def generate_catch_def)
qed

text \<open>
  C4 (amended). In the Generate workflow, when the climate fetch succeeds and the design
  generation fails, the fetched climate is not stored: every state of the run has the
  climate field and the floor plan field of the state before the run. The climate is
  written by one updater only, together with the plan, so from a reachable state every
  state of the run is reachable and none holds a climate without a plan.
\<close>

theorem handleGenerate_failure_stores_nothing:
  assumes "location form \<noteq> []"
    and "getClimateData svc (location form) (plotDimensions form) (priority form) = Inr c"
    and "generateDesign svc c (plotDimensions form) (requirements form) = Inl err"
  shows "(\<forall>s' \<in> set (states (handleGenerate svc form s)).
            climate s' = climate s \<and> floorPlan s' = floorPlan s) \<and>
         (reachable s \<longrightarrow>
            (\<forall>s' \<in> set (states (handleGenerate svc form s)).
               reachable s' \<and> (climate s' \<noteq> None \<longrightarrow> floorPlan s' \<noteq> None)))"
proof (intro conjI impI ballI)
  fix s' assume "s' \<in> set (states (handleGenerate svc form s))"
  with assms show "climate s' = climate s" "floorPlan s' = floorPlan s"
    by (auto simp: handleGenerate_def Let_def generate_begin_def generate_catch_def)
next
  fix s' assume "reachable s" "s' \<in> set (states (handleGenerate svc form s))"
  then show r: "reachable s'"
    using successively_step_reachable [OF handleGenerate_steps] by blast
  assume "climate s' \<noteq> None"
  with r reachable_climate_plan show "floorPlan s' \<noteq> None" by blast
qed

theorem handleGenerate_failure_stores_nothing_witness:
  "location sample_form \<noteq> [] \<and> reachable initial_state \<and>
   generate_catch (Failure ''quota exceeded'') (generate_begin initial_state)
     \<in> set (states (handleGenerate design_fails sample_form initial_state)) \<and>
   climate (generate_catch (Failure ''quota exceeded'') (generate_begin initial_state)) = None \<and>
   floorPlan (generate_catch (Failure ''quota exceeded'') (generate_begin initial_state)) = None \<and>
   reachable (generate_catch (Failure ''quota exceeded'') (generate_begin initial_state))"
proof -
  have loc: "location sample_form \<noteq> []"
    by (simp add: sample_form_def)
  have fetch: "getClimateData design_fails (location sample_form) (plotDimensions sample_form)
      (priority sample_form) = Inr sample_climate"
    by (simp add: design_fails_def good_service_def)
  have bad: "generateDesign design_fails sample_climate (plotDimensions sample_form)
     (requirements sample_form) = Inl (Failure ''quota exceeded'')"
    by (simp add: design_fails_def)
  have mem: "generate_catch (Failure ''quota exceeded'') (generate_begin initial_state)
     \<in> set (states (handleGenerate design_fails sample_form initial_state))"
    by (simp add: handleGenerate_def Let_def sample_form_def design_fails_def good_service_def)
  have init: "climate initial_state = None" "floorPlan initial_state = None"
    by (simp_all add: initial_state_def)
  from handleGenerate_failure_stores_nothing [OF loc fetch bad, of initial_state]
    mem init reachable.intros(1) loc
  show ?thesis by auto
qed

subsection \<open>Refine\<close>

text \<open>
  C5. In the Refine workflow, started on a state that holds a plan and a climate: when
  the refine request and the evaluation succeed, the refined plan is the current plan,
  the plan from before is kept as the previous plan, the second request is the
  evaluation of the refined plan's performance metrics, and its verdict is stored with
  the evaluating flag (and the refining flag) false. When the refine request fails, or
  when it succeeds and the evaluation fails, the refining and the evaluating flag are
  both false at the end and the error is the fixed message
  \<^verbatim>\<open>Optimization cycle failed. Please try again.\<close>
\<close>

theorem handleRefine_workflow:
  fixes svc s
  defines "run \<equiv> handleRefine svc s"
  assumes plan: "floorPlan s = Some originalPlan"
    and clim: "climate s = Some c"
  shows
    "(refineDesign svc originalPlan c = Inr result \<and>
      evaluateOptimization svc (performanceMetrics (revised_floor_plan result)) = Inr verdict \<longrightarrow>
        calls run = [RefineDesign originalPlan c,
                     EvaluateOptimization (performanceMetrics (revised_floor_plan result))] \<and>
        floorPlan (final_state s run) = Some (revised_floor_plan result) \<and>
        previousFloorPlan (final_state s run) = Some originalPlan \<and>
        refinement (final_state s run) = Some result \<and>
        optimizationVerdict (final_state s run) = Some verdict \<and>
        \<not> isEvaluating (final_state s run) \<and>
        \<not> isRefining (final_state s run)) \<and>
     (refineDesign svc originalPlan c = Inl err \<longrightarrow>
        calls run = [RefineDesign originalPlan c] \<and>
        \<not> isRefining (final_state s run) \<and>
        \<not> isEvaluating (final_state s run) \<and>
        error (final_state s run) = Some ''Optimization cycle failed. Please try again.'') \<and>
     (refineDesign svc originalPlan c = Inr result \<and>
      evaluateOptimization svc (performanceMetrics (revised_floor_plan result)) = Inl err \<longrightarrow>
        calls run = [RefineDesign originalPlan c,
                     EvaluateOptimization (performanceMetrics (revised_floor_plan result))] \<and>
        \<not> isRefining (final_state s run) \<and>
        \<not> isEvaluating (final_state s run) \<and>
        error (final_state s run) = Some ''Optimization cycle failed. Please try again.'')"
  using plan clim
  by (simp add: run_def handleRefine_def final_state_def Let_def refine_begin_def
      refine_done_def evaluate_begin_def evaluate_done_def refine_catch_def)

theorem handleRefine_workflow_witness:
  "floorPlan designed_state = Some sample_plan \<and> climate designed_state = Some sample_climate \<and>
   refineDesign good_service sample_plan sample_climate = Inr sample_refinement \<and>
   evaluateOptimization good_service (performanceMetrics revised_plan) = Inr sample_verdict \<and>
   refineDesign refine_fails sample_plan sample_climate = Inl (Failure ''bad JSON'') \<and>
   refineDesign evaluate_fails sample_plan sample_climate = Inr sample_refinement \<and>
   evaluateOptimization evaluate_fails (performanceMetrics revised_plan) = Inl (Failure ''timeout'') \<and>
   floorPlan (final_state designed_state (handleRefine good_service designed_state))
     = Some revised_plan \<and>
   previousFloorPlan (final_state designed_state (handleRefine good_service designed_state))
     = Some sample_plan \<and>
   optimizationVerdict (final_state designed_state (handleRefine good_service designed_state))
     = Some sample_verdict \<and>
   calls (handleRefine good_service designed_state) =
     [RefineDesign sample_plan sample_climate,
      EvaluateOptimization (performanceMetrics revised_plan)] \<and>
   \<not> isEvaluating (final_state designed_state (handleRefine good_service designed_state)) \<and>
   \<not> isRefining (final_state designed_state (handleRefine refine_fails designed_state)) \<and>
   \<not> isEvaluating (final_state designed_state (handleRefine refine_fails designed_state)) \<and>
   error (final_state designed_state (handleRefine refine_fails designed_state))
     = Some ''Optimization cycle failed. Please try again.'' \<and>
   \<not> isRefining (final_state designed_state (handleRefine evaluate_fails designed_state)) \<and>
   \<not> isEvaluating (final_state designed_state (handleRefine evaluate_fails designed_state)) \<and>
   error (final_state designed_state (handleRefine evaluate_fails designed_state))
     = Some ''Optimization cycle failed. Please try again.''"
proof -
  have plan: "floorPlan designed_state = Some sample_plan"
    and clim: "climate designed_state = Some sample_climate"
    by (simp_all add: designed_state_eq)
  have rev: "revised_floor_plan sample_refinement = revised_plan"
    by (simp add: sample_refinement_def)
  have good: "refineDesign good_service sample_plan sample_climate = Inr sample_refinement"
    "evaluateOptimization good_service (performanceMetrics revised_plan) = Inr sample_verdict"
    by (simp_all add: good_service_def)
  have rf: "refineDesign refine_fails sample_plan sample_climate = Inl (Failure ''bad JSON'')"
    by (simp add: refine_fails_def)
  have ef: "refineDesign evaluate_fails sample_plan sample_climate = Inr sample_refinement"
    "evaluateOptimization evaluate_fails (performanceMetrics revised_plan) = Inl (Failure ''timeout'')"
    by (simp_all add: evaluate_fails_def good_service_def)
  from handleRefine_workflow [OF plan clim, of good_service sample_refinement sample_verdict]
    good rev
  have A: "floorPlan (final_state designed_state (handleRefine good_service designed_state))
     = Some revised_plan \<and>
   previousFloorPlan (final_state designed_state (handleRefine good_service designed_state))
     = Some sample_plan \<and>
   optimizationVerdict (final_state designed_state (handleRefine good_service designed_state))
     = Some sample_verdict \<and>
   calls (handleRefine good_service designed_state) =
     [RefineDesign sample_plan sample_climate,
      EvaluateOptimization (performanceMetrics revised_plan)] \<and>
   \<not> isEvaluating (final_state designed_state (handleRefine good_service designed_state))"
    by simp
  from handleRefine_workflow [OF plan clim, of refine_fails _ _ "Failure ''bad JSON''"] rf
  have B: "\<not> isRefining (final_state designed_state (handleRefine refine_fails designed_state)) \<and>
   \<not> isEvaluating (final_state designed_state (handleRefine refine_fails designed_state)) \<and>
   error (final_state designed_state (handleRefine refine_fails designed_state))
     = Some ''Optimization cycle failed. Please try again.''"
    by simp
  from handleRefine_workflow [OF plan clim, of evaluate_fails sample_refinement _ "Failure ''timeout''"]
    ef rev
  have C: "\<not> isRefining (final_state designed_state (handleRefine evaluate_fails designed_state)) \<and>
   \<not> isEvaluating (final_state designed_state (handleRefine evaluate_fails designed_state)) \<and>
   error (final_state designed_state (handleRefine evaluate_fails designed_state))
     = Some ''Optimization cycle failed. Please try again.''"
    by simp
  from plan clim good rf ef A B C show ?thesis by blast
qed

subsection \<open>Diagnose\<close>

text \<open>
  C6. In the Diagnose workflow, when the request succeeds, the current plan afterwards
  is the plan from before with its diagnostics field replaced: title, orientation,
  rooms, total area, performance metrics, reasoning and rejected alternatives are the
  same values. Running Diagnose a second time straight after leaves these seven fields
  as they were before the first run.
\<close>

theorem handleRunDiagnostics_frame:
  fixes svc svc' s
  defines "s1 \<equiv> final_state s (handleRunDiagnostics svc s)"
  defines "s2 \<equiv> final_state s1 (handleRunDiagnostics svc' s1)"
  assumes plan: "floorPlan s = Some plan"
    and diag: "getDiagnostics svc plan = Inr d"
  shows
    "floorPlan s1 = Some (plan\<lparr>diagnostics := d\<rparr>) \<and>
     (\<exists>plan1. floorPlan s1 = Some plan1 \<and> diagnostics plan1 = d \<and>
        designTitle plan1 = designTitle plan \<and> orientation plan1 = orientation plan \<and>
        rooms plan1 = rooms plan \<and> totalArea plan1 = totalArea plan \<and>
        performanceMetrics plan1 = performanceMetrics plan \<and>
        architectReasoning plan1 = architectReasoning plan \<and>
        rejected_alternatives plan1 = rejected_alternatives plan) \<and>
     (getDiagnostics svc' (plan\<lparr>diagnostics := d\<rparr>) = Inr d' \<longrightarrow>
        floorPlan s2 = Some (plan\<lparr>diagnostics := d'\<rparr>) \<and>
        (\<exists>plan2. floorPlan s2 = Some plan2 \<and> diagnostics plan2 = d' \<and>
           designTitle plan2 = designTitle plan \<and> orientation plan2 = orientation plan \<and>
           rooms plan2 = rooms plan \<and> totalArea plan2 = totalArea plan \<and>
           performanceMetrics plan2 = performanceMetrics plan \<and>
           architectReasoning plan2 = architectReasoning plan \<and>
           rejected_alternatives plan2 = rejected_alternatives plan))"
proof -
  from plan diag have s1: "floorPlan s1 = Some (plan\<lparr>diagnostics := d\<rparr>)"
    by (simp add: s1_def handleRunDiagnostics_def final_state_def Let_def diagnose_begin_def
        diagnose_done_def)
  have s2: "floorPlan s2 = Some (plan\<lparr>diagnostics := d'\<rparr>)"
    if "getDiagnostics svc' (plan\<lparr>diagnostics := d\<rparr>) = Inr d'"
    using that s1
    by (simp add: s2_def handleRunDiagnostics_def final_state_def Let_def diagnose_begin_def
        diagnose_done_def)
  from s1 s2 show ?thesis by simp
qed

theorem handleRunDiagnostics_frame_witness:
  "floorPlan designed_state = Some sample_plan \<and>
   getDiagnostics good_service sample_plan = Inr fresh_diagnostics \<and>
   getDiagnostics good_service (sample_plan\<lparr>diagnostics := fresh_diagnostics\<rparr>)
     = Inr fresh_diagnostics \<and>
   floorPlan (final_state designed_state (handleRunDiagnostics good_service designed_state))
     = Some (sample_plan\<lparr>diagnostics := fresh_diagnostics\<rparr>) \<and>
   floorPlan
     (final_state
        (final_state designed_state (handleRunDiagnostics good_service designed_state))
        (handleRunDiagnostics good_service
           (final_state designed_state (handleRunDiagnostics good_service designed_state))))
     = Some (sample_plan\<lparr>diagnostics := fresh_diagnostics\<rparr>) \<and>
   diagnostics sample_plan \<noteq> fresh_diagnostics"
proof -
  have plan: "floorPlan designed_state = Some sample_plan"
    by (simp add: designed_state_eq)
  have diag: "getDiagnostics good_service sample_plan = Inr fresh_diagnostics"
    and diag': "getDiagnostics good_service (sample_plan\<lparr>diagnostics := fresh_diagnostics\<rparr>)
     = Inr fresh_diagnostics"
    by (simp_all add: good_service_def)
  have ne: "diagnostics sample_plan \<noteq> fresh_diagnostics"
    by (simp add: sample_plan_def sample_diagnostics_def fresh_diagnostics_def)
  from handleRunDiagnostics_frame [OF plan diag, of good_service fresh_diagnostics] diag'
  have "floorPlan (final_state designed_state (handleRunDiagnostics good_service designed_state))
     = Some (sample_plan\<lparr>diagnostics := fresh_diagnostics\<rparr>) \<and>
   floorPlan
     (final_state
        (final_state designed_state (handleRunDiagnostics good_service designed_state))
        (handleRunDiagnostics good_service
           (final_state designed_state (handleRunDiagnostics good_service designed_state))))
     = Some (sample_plan\<lparr>diagnostics := fresh_diagnostics\<rparr>)"
    by blast
  with plan diag diag' ne show ?thesis by blast
qed

subsection \<open>History\<close>

text \<open>
  C9. The history log is append-only. Along every run of Generate, Refine and Diagnose,
  whether its requests succeed or fail, the history of each state is a prefix of the
  history of the next, so the history before the run is a prefix of the history after
  it; and every single state update of these handlers, taken alone, leaves the old
  history as a prefix of the new one.
\<close>

theorem history_append_only:
  "successively (\<lambda>a b. prefix (history a) (history b))
      (s # states (handleGenerate svc form s)) \<and>
   successively (\<lambda>a b. prefix (history a) (history b))
      (s # states (handleRefine svc s)) \<and>
   successively (\<lambda>a b. prefix (history a) (history b))
      (s # states (handleRunDiagnostics svc s)) \<and>
   prefix (history s) (history (final_state s (handleGenerate svc form s))) \<and>
   prefix (history s) (history (final_state s (handleRefine svc s))) \<and>
   prefix (history s) (history (final_state s (handleRunDiagnostics svc s))) \<and>
   (\<forall>s'. step s s' \<longrightarrow> prefix (history s) (history s'))"
proof -
  have fin: "prefix (history s) (history (last (s # ss)))"
    if "successively (\<lambda>a b. prefix (history a) (history b)) (s # ss)" for ss
    using that
  proof (induction ss arbitrary: s)
    case Nil
    then show ?case by simp
  next
    case (Cons a ss)
    then have "prefix (history s) (history a)" "prefix (history a) (history (last (a # ss)))"
      by simp_all
    then show ?case by (auto intro: prefix_order.trans)
  qed
  note g = successively_step_history [OF handleGenerate_steps, of s svc form]
  note r = successively_step_history [OF handleRefine_steps, of s svc]
  note d = successively_step_history [OF handleRunDiagnostics_steps, of s svc]
  from g r d fin [OF g] fin [OF r] fin [OF d] step_history show ?thesis
    by (simp add: final_state_def)
qed

theorem history_append_only_witness:
  "step designed_state (refine_done sample_plan sample_refinement designed_state) \<and>
   history designed_state = [''Designed for Phoenix''] \<and>
   history (refine_done sample_plan sample_refinement designed_state) =
     [''Designed for Phoenix'', ''Refined design for performance optimization''] \<and>
   prefix (history designed_state)
     (history (refine_done sample_plan sample_refinement designed_state)) \<and>
   prefix (history designed_state)
     (history (final_state designed_state (handleRefine good_service designed_state)))"
proof -
  have st: "step designed_state (refine_done sample_plan sample_refinement designed_state)"
    by (rule step.intros)
  have h: "history designed_state = [''Designed for Phoenix'']"
    "history (refine_done sample_plan sample_refinement designed_state) =
     [''Designed for Phoenix'', ''Refined design for performance optimization'']"
    by (simp_all add: designed_state_eq refine_done_def)
  from history_append_only [of designed_state good_service sample_form] st h
  show ?thesis by blast
qed

section \<open>Properties of room-reference resolution\<close>

subsection \<open>What the record holds\<close>

lemma roomCentroids_record_of: "roomCentroids plan = record_of (centroid plan) (rooms plan)"
  by (simp add: roomCentroids_def record_of_def room_key_def)














subsection \<open>Lookup and scan\<close>


















subsection \<open>The sample plans evaluated\<close>

lemmas string_defs = toLowerCase_def toLowerChar_def trim_def isWhiteSpace_def

lemma sample_rooms: "rooms sample_plan = [living_room, kitchen, master_bedroom, bedroom]"
  by (simp add: sample_plan_def)

lemma sample_room_keys:
  "room_key living_room = ''living room''" "room_key kitchen = ''kitchen''"
  "room_key master_bedroom = ''master bedroom''" "room_key bedroom = ''bedroom''"
  by (simp_all add: living_room_def kitchen_def master_bedroom_def bedroom_def
      room_key_def string_defs)


lemma sample_dimensions:
  "dimensions sample_plan =
     \<lparr>width = Fin 400, height = Fin 400, offsetX = Fin 0, offsetY = Fin 0\<rparr>"
  by (simp add: dimensions_def bounding_box_def sample_rooms bounds_step_def living_room_def
      kitchen_def master_bedroom_def bedroom_def SCALE_def PADDING_def num_sub_def fl_small)

lemma sample_centroids:
  "centroid sample_plan living_room = \<lparr>cx = Fin (295 / 2), cy = Fin 130\<rparr>"
  "centroid sample_plan kitchen = \<lparr>cx = Fin (575 / 2), cy = Fin 130\<rparr>"
  by (simp_all add: centroid_def sample_dimensions living_room_def kitchen_def SCALE_def
      PADDING_def num_sub_def fl_small)

lemma sample_record:
  "roomCentroids sample_plan =
     \<lparr>own = [(''living room'', centroid sample_plan living_room),
             (''kitchen'', centroid sample_plan kitchen),
             (''master bedroom'', centroid sample_plan master_bedroom),
             (''bedroom'', centroid sample_plan bedroom)],
      proto = None\<rparr>"
  by (simp add: roomCentroids_record_of record_of_def sample_rooms sample_room_keys
      set_property_def)

lemma sample_endpoints:
  "findCentroid sample_plan ''Living Room'' = Obj (centroid sample_plan living_room)"
  "findCentroid sample_plan ''Kitchen'' = Obj (centroid sample_plan kitchen)"
  by (simp_all add: findCentroid_def sample_record get_property_def string_defs)









subsection \<open>Resolution of references\<close>




subsection \<open>Airflow lines\<close>

lemma airflow_line_stroke:
  "airflow_line plan flow = Some l \<Longrightarrow> strokeWidth l = 2 \<and> strokeOpacity l = 0.6"
  by (auto simp: airflow_line_def Let_def flow_property_def split: if_splits)

text \<open>
  C7. The specification asks for a stroke that grows with the strength of the flow. The
  renderer reads the property \<^verbatim>\<open>efficiency\<close>, which an airflow entry does not have, so
  every line has width 2 and opacity 0.6: in the sample plan the line from the living
  room to the kitchen is the same for a strong and for a weak flow.
\<close>

theorem airflow_stroke_ignores_strength:
  "airflow_line sample_plan
     \<lparr>flow_from = ''Living Room'', flow_to = ''Kitchen'', strength = Strong\<rparr> =
   Some \<lparr>x1 = Some (Fin (295 / 2)), y1 = Some (Fin 130),
         x2 = Some (Fin (575 / 2)), y2 = Some (Fin 130),
         strokeWidth = 2, strokeOpacity = 0.6\<rparr> \<and>
   airflow_line sample_plan
     \<lparr>flow_from = ''Living Room'', flow_to = ''Kitchen'', strength = Weak\<rparr> =
   Some \<lparr>x1 = Some (Fin (295 / 2)), y1 = Some (Fin 130),
         x2 = Some (Fin (575 / 2)), y2 = Some (Fin 130),
         strokeWidth = 2, strokeOpacity = 0.6\<rparr>"
  by (simp add: airflow_line_def sample_endpoints sample_centroids flow_property_def)

theorem airflow_stroke_ignores_strength_witness:
  "map_option strokeWidth (airflow_line sample_plan
      \<lparr>flow_from = ''Living Room'', flow_to = ''Kitchen'', strength = Strong\<rparr>) =
   map_option strokeWidth (airflow_line sample_plan
      \<lparr>flow_from = ''Living Room'', flow_to = ''Kitchen'', strength = Weak\<rparr>) \<and>
   map_option strokeOpacity (airflow_line sample_plan
      \<lparr>flow_from = ''Living Room'', flow_to = ''Kitchen'', strength = Strong\<rparr>) =
   map_option strokeOpacity (airflow_line sample_plan
      \<lparr>flow_from = ''Living Room'', flow_to = ''Kitchen'', strength = Weak\<rparr>)"
  using airflow_stroke_ignores_strength by simp

subsection \<open>Blank references\<close>










end
